theory Spec2Isabelle
  imports Complex_Main "HOL-Library.Log_Nat"
begin

section \<open>The routing-resource graph\<close>

text \<open>
  The source reads a routing-resource graph through three accessors only:
  \<^verbatim>\<open>rr_graph.nodes()\<close>, \<^verbatim>\<open>rr_graph.node_type(node)\<close> and
  \<^verbatim>\<open>rr_graph.node_direction(node)\<close>. The graph is a record of exactly these.
  Of the two enumerations the source names \<^verbatim>\<open>CHANX\<close>, \<^verbatim>\<open>CHANY\<close> and
  \<^verbatim>\<open>BI_DIRECTION\<close>; the other enumerators follow the node types and directions
  of the data model (source, sink, input pin, output pin; a track running in the
  increasing or the decreasing direction, or a node with no direction).
\<close>

datatype t_rr_type = SOURCE | SINK | IPIN | OPIN | CHANX | CHANY

datatype e_direction = INC_DIRECTION | DEC_DIRECTION | BI_DIRECTION | NO_DIRECTION

type_synonym RRNodeId = nat

record RRGraph =
  nodes :: "RRNodeId list"
  node_type :: "RRNodeId \<Rightarrow> t_rr_type"
  node_direction :: "RRNodeId \<Rightarrow> e_direction"

text \<open>
  \<^verbatim>\<open>is_vpr_rr_graph_supported\<close>: the loop over \<^verbatim>\<open>rr_graph.nodes()\<close>. A node that is
  neither CHANX nor CHANY is skipped (\<^verbatim>\<open>continue\<close>); the first channel node whose
  direction is BI_DIRECTION ends the loop with \<^verbatim>\<open>false\<close>; a loop that runs to its
  end is followed by \<^verbatim>\<open>return true\<close>.
\<close>

fun rr_nodes_supported :: "RRGraph \<Rightarrow> RRNodeId list \<Rightarrow> bool" where
  "rr_nodes_supported g [] = True"
| "rr_nodes_supported g (node # rest) =
     (if CHANX \<noteq> node_type g node \<and> CHANY \<noteq> node_type g node
      then rr_nodes_supported g rest
      else if BI_DIRECTION = node_direction g node then False
      else rr_nodes_supported g rest)"

definition is_vpr_rr_graph_supported :: "RRGraph \<Rightarrow> bool" where
  "is_vpr_rr_graph_supported g = rr_nodes_supported g (nodes g)"

text \<open>The vocabulary of the specification, for stating properties of the checker.\<close>

definition is_channel_node :: "RRGraph \<Rightarrow> RRNodeId \<Rightarrow> bool" where
  "is_channel_node g n = (node_type g n = CHANX \<or> node_type g n = CHANY)"

definition is_unidirectional :: "e_direction \<Rightarrow> bool" where
  "is_unidirectional d = (d = INC_DIRECTION \<or> d = DEC_DIRECTION)"

definition all_channel_nodes_unidirectional :: "RRGraph \<Rightarrow> bool" where
  "all_channel_nodes_unidirectional g =
     list_all (\<lambda>n. is_channel_node g n \<longrightarrow> is_unidirectional (node_direction g n)) (nodes g)"

definition has_bidirectional_channel_node :: "RRGraph \<Rightarrow> bool" where
  "has_bidirectional_channel_node g =
     list_ex (\<lambda>n. is_channel_node g n \<and> node_direction g n = BI_DIRECTION) (nodes g)"

section \<open>Floating-point values\<close>

text \<open>
  The simulation setting holds C \<^verbatim>\<open>float\<close>s, and the source computes with them in
  single and in double precision. A floating-point value is finite, and then
  denotes a real number, or an infinity, or not a number. There are two zeros:
  \<open>Finite 0\<close> is \<^verbatim>\<open>+0.0\<close> and \<open>NegZero\<close> is \<^verbatim>\<open>-0.0\<close>. Every float is a double, so
  the conversion of a float to a double changes nothing and one type serves both.
\<close>

datatype c_float = Finite real | NegZero | PosInf | NegInf | NaN

text \<open>
  The comparison \<^verbatim>\<open>==\<close>: the two zeros are equal, and NaN is equal to nothing.
\<close>

fun c_float_eq :: "c_float \<Rightarrow> c_float \<Rightarrow> bool" where
  "c_float_eq (Finite a) (Finite b) = (a = b)"
| "c_float_eq (Finite a) NegZero = (a = 0)"
| "c_float_eq NegZero (Finite b) = (b = 0)"
| "c_float_eq NegZero NegZero = True"
| "c_float_eq PosInf PosInf = True"
| "c_float_eq NegInf NegInf = True"
| "c_float_eq x y = False"

text \<open>
  The two formats: the number of significand bits, and the least and the greatest
  exponent of a normal number.
\<close>

record float_format =
  precision :: nat
  emin :: int
  emax :: int

definition binary32 :: float_format where
  "binary32 = \<lparr> precision = 24, emin = - 126, emax = 127 \<rparr>"

definition binary64 :: float_format where
  "binary64 = \<lparr> precision = 53, emin = - 1022, emax = 1023 \<rparr>"

text \<open>
  Rounding to nearest, ties to even, which is the rounding of C arithmetic unless
  the program changes the mode (the source does not). \<open>ilog2 a\<close> is the exponent
  of \<open>a > 0\<close>, the integer \<open>e\<close> with \<open>2 powi e \<le> a < 2 powi (e + 1)\<close>. A nonzero real
  \<open>r\<close> is rounded to the nearest multiple of the unit in the last place of its
  binade, or of the least binade for a subnormal result; a result that reaches
  \<open>2 powi (emax + 1)\<close> overflows to an infinity, and one that vanishes keeps the
  sign of \<open>r\<close>.
\<close>

definition ilog2 :: "real \<Rightarrow> int" where
  "ilog2 a = (if 1 \<le> a then bitlen \<lfloor>a\<rfloor> - 1 else - bitlen (\<lceil>1 / a\<rceil> - 1))"

definition round_half_even :: "real \<Rightarrow> int" where
  "round_half_even x =
     (let n = \<lfloor>x\<rfloor>; d = x - of_int n
      in if d < 1 / 2 then n
         else if 1 / 2 < d then n + 1
         else if even n then n else n + 1)"

definition round_nearest :: "float_format \<Rightarrow> real \<Rightarrow> c_float" where
  "round_nearest F r =
     (if r = 0 then Finite 0
      else
        (let e = max (emin F) (ilog2 \<bar>r\<bar>);
             ulp = 2 powi (e - (int (precision F) - 1));
             n = round_half_even (r / ulp);
             y = of_int n * ulp
         in if 2 powi (emax F + 1) \<le> \<bar>y\<bar> then (if 0 < r then PosInf else NegInf)
            else if n = 0 then (if 0 < r then Finite 0 else NegZero)
            else Finite y))"

text \<open>
  Addition, multiplication and division in a format, and the conversion to a
  format, with the special cases of IEEE 754: NaN is contagious; \<open>\<infinity> - \<infinity>\<close>,
  \<open>0 \<times> \<infinity>\<close>, \<open>\<infinity> / \<infinity>\<close> and \<open>0 / 0\<close> are NaN; a nonzero number divided by a
  zero is an infinity; the sign of a product or quotient is the exclusive or of
  the signs; an exact zero sum is \<^verbatim>\<open>-0.0\<close> only when both summands are negative.
\<close>

fun sign_bit :: "c_float \<Rightarrow> bool" where
  "sign_bit (Finite x) = (x < 0)"
| "sign_bit NegZero = True"
| "sign_bit PosInf = False"
| "sign_bit NegInf = True"
| "sign_bit NaN = False"

fun float_value :: "c_float \<Rightarrow> real" where
  "float_value (Finite x) = x"
| "float_value x = 0"

definition is_zero :: "c_float \<Rightarrow> bool" where
  "is_zero x = (x = Finite 0 \<or> x = NegZero)"

definition is_inf :: "c_float \<Rightarrow> bool" where
  "is_inf x = (x = PosInf \<or> x = NegInf)"

definition signed_zero :: "bool \<Rightarrow> c_float" where
  "signed_zero negative = (if negative then NegZero else Finite 0)"

definition signed_inf :: "bool \<Rightarrow> c_float" where
  "signed_inf negative = (if negative then NegInf else PosInf)"

definition fp_add :: "float_format \<Rightarrow> c_float \<Rightarrow> c_float \<Rightarrow> c_float" where
  "fp_add F x y =
     (if x = NaN \<or> y = NaN then NaN
      else if is_inf x \<and> is_inf y then (if x = y then x else NaN)
      else if is_inf x then x
      else if is_inf y then y
      else
        (let r = float_value x + float_value y
         in if r = 0 then signed_zero (sign_bit x \<and> sign_bit y)
            else round_nearest F r))"

definition fp_mul :: "float_format \<Rightarrow> c_float \<Rightarrow> c_float \<Rightarrow> c_float" where
  "fp_mul F x y =
     (if x = NaN \<or> y = NaN then NaN
      else if (is_inf x \<and> is_zero y) \<or> (is_zero x \<and> is_inf y) then NaN
      else if is_inf x \<or> is_inf y then signed_inf (sign_bit x \<noteq> sign_bit y)
      else if is_zero x \<or> is_zero y then signed_zero (sign_bit x \<noteq> sign_bit y)
      else round_nearest F (float_value x * float_value y))"

definition fp_div :: "float_format \<Rightarrow> c_float \<Rightarrow> c_float \<Rightarrow> c_float" where
  "fp_div F x y =
     (if x = NaN \<or> y = NaN then NaN
      else if (is_inf x \<and> is_inf y) \<or> (is_zero x \<and> is_zero y) then NaN
      else if is_inf x \<or> is_zero y then signed_inf (sign_bit x \<noteq> sign_bit y)
      else if is_inf y \<or> is_zero x then signed_zero (sign_bit x \<noteq> sign_bit y)
      else round_nearest F (float_value x / float_value y))"

definition fp_convert :: "float_format \<Rightarrow> c_float \<Rightarrow> c_float" where
  "fp_convert F x =
     (case x of
        Finite r \<Rightarrow> if r = 0 then Finite 0 else round_nearest F r
      | NegZero \<Rightarrow> NegZero
      | PosInf \<Rightarrow> PosInf
      | NegInf \<Rightarrow> NegInf
      | NaN \<Rightarrow> NaN)"

text \<open>\<open>rel_close eps x y\<close>: \<open>y\<close> is \<open>x\<close> up to the relative error \<open>eps\<close>.\<close>

definition rel_close :: "real \<Rightarrow> real \<Rightarrow> real \<Rightarrow> bool" where
  "rel_close eps x y = (\<bar>y - x\<bar> \<le> eps * \<bar>x\<bar>)"

section \<open>The contexts\<close>

text \<open>
  The classes of the upstream place-and-route engine and of the architecture
  description are opaque to the two operations: they are handed on to the passes
  and never inspected, the routing-resource graph apart. One type variable \<open>'u\<close>
  stands for each of them, and one type variable \<open>'a\<close> for the payload of each
  annotation class. \<open>'s\<close> is the type of structural multiplexer signatures.
\<close>

record SimulationSetting =
  operating_clock_frequency :: c_float
  operating_clock_frequency_slack :: c_float
  num_clock_cycles :: int

record 'u DeviceContext =
  rr_graph :: RRGraph
  device_rest :: 'u

record 'u VprContext =
  device :: "'u DeviceContext"
  atom :: 'u
  clustering :: 'u
  placement :: 'u
  routing :: 'u

record 'u Arch =
  circuit_lib :: 'u
  arch_direct :: 'u
  sim_setting :: SimulationSetting
  arch_rest :: 'u

text \<open>
  The multiplexer library maps a structural signature to its canonical
  identifier; the entries are kept in the order in which they were allocated.
\<close>

type_synonym 's MuxLibrary = "('s \<times> nat) list"

record ('u, 'a, 's) OpenfpgaContext =
  arch :: "'u Arch"
  vpr_device_annotation :: 'a
  vpr_clustering_annotation :: 'a
  vpr_routing_annotation :: 'a
  device_rr_gsb :: 'a
  mux_lib :: "'s MuxLibrary"
  tile_direct :: 'a
  vpr_placement_annotation :: 'a

text \<open>
  The command context, keyed by the option's name: \<^verbatim>\<open>cmd.option(name)\<close> followed by
  \<^verbatim>\<open>cmd_context.option_enable(cmd, id)\<close> or \<^verbatim>\<open>cmd_context.option_value(cmd, id)\<close>.
\<close>

record CommandContext =
  option_enable :: "string \<Rightarrow> bool"
  option_value :: "string \<Rightarrow> string"

text \<open>
  The design constraints: an ordered table of rules, each pinning an atom net
  (first component) to a physical pin (second component). A default-constructed
  table is empty.
\<close>

type_synonym RepackDesignConstraints = "(string \<times> string) list"

section \<open>The functions the two operations call\<close>

text \<open>
  The bodies of the passes are not part of the two source files; the operations
  are modelled for arbitrary passes, given as a record of functions. A pass that
  takes a mutable annotation returns the annotation it leaves.

  \<^item> \<open>routing_annotation_init\<close> is \<^verbatim>\<open>VprRoutingAnnotation::init\<close>.
  \<^item> \<open>find_device_muxes\<close> enumerates the structural signatures of the multiplexers
    that the device and the context imply, one per physical instance.
  \<^item> \<open>load_net_delay_from_routing\<close> stands for \<^verbatim>\<open>alloc_net_delay\<close> followed by
    \<^verbatim>\<open>load_net_delay_from_routing\<close>, which read the global VPR context;
    \<open>least_slack_critical_path_delay\<close> stands for the construction of the delay
    calculator and of the timing information from the atom netlist and the net
    delays, \<^verbatim>\<open>timing_info->update()\<close> and
    \<^verbatim>\<open>timing_info->least_slack_critical_path().delay()\<close>.
  \<^item> \<open>pack_physical_pbs\<close> and \<open>build_physical_lut_truth_tables\<close> yield, next to the
    annotations they leave, the exit code that the execution of the step arrives
    at (0 for success).
\<close>

record ('u, 'a, 's) extern =
  annotate_pb_types :: "'u DeviceContext \<Rightarrow> 'u Arch \<Rightarrow> 'a \<Rightarrow> bool \<Rightarrow> 'a"
  annotate_pb_graph :: "'u DeviceContext \<Rightarrow> 'a \<Rightarrow> bool \<Rightarrow> 'a"
  annotate_rr_graph_circuit_models :: "'u DeviceContext \<Rightarrow> 'u Arch \<Rightarrow> 'a \<Rightarrow> bool \<Rightarrow> 'a"
  routing_annotation_init :: "'a \<Rightarrow> RRGraph \<Rightarrow> 'a"
  annotate_rr_node_nets :: "'u DeviceContext \<Rightarrow> 'u \<Rightarrow> 'u \<Rightarrow> 'a \<Rightarrow> bool \<Rightarrow> 'a"
  annotate_device_rr_gsb :: "'u DeviceContext \<Rightarrow> 'a \<Rightarrow> bool \<Rightarrow> 'a"
  find_device_muxes :: "'u DeviceContext \<Rightarrow> ('u, 'a, 's) OpenfpgaContext \<Rightarrow> 's list"
  build_device_tile_direct :: "'u DeviceContext \<Rightarrow> 'u \<Rightarrow> 'a"
  annotate_mapped_blocks :: "'u DeviceContext \<Rightarrow> 'u \<Rightarrow> 'u \<Rightarrow> 'a \<Rightarrow> 'a"
  load_net_delay_from_routing :: "'u VprContext \<Rightarrow> 'u"
  least_slack_critical_path_delay :: "'u \<Rightarrow> 'u \<Rightarrow> c_float"
  read_xml_repack_design_constraints :: "string \<Rightarrow> RepackDesignConstraints"
  pack_physical_pbs :: "'u DeviceContext \<Rightarrow> 'u \<Rightarrow> 'u \<Rightarrow> 'a \<Rightarrow> 'a \<Rightarrow> bool \<Rightarrow> int \<times> 'a \<times> 'a"
  build_physical_lut_truth_tables :: "'a \<Rightarrow> 'u \<Rightarrow> 'u \<Rightarrow> 'a \<Rightarrow> 'u \<Rightarrow> bool \<Rightarrow> int \<times> 'a"

text \<open>
  The calls an operation makes, in the order in which it makes them, are recorded
  next to the state it leaves: \<open>run c f\<close> applies the effect \<open>f\<close> of a call and
  appends \<open>c\<close> to the record.
\<close>

datatype call =
    Call_annotate_pb_types
  | Call_annotate_pb_graph
  | Call_annotate_rr_graph_circuit_models
  | Call_routing_annotation_init
  | Call_annotate_rr_node_nets
  | Call_is_vpr_rr_graph_supported
  | Call_annotate_device_rr_gsb
  | Call_build_device_mux_library
  | Call_build_device_tile_direct
  | Call_annotate_mapped_blocks
  | Call_annotate_simulation_setting
  | Call_load_net_delay_from_routing
  | Call_timing_info_update

definition run :: "call \<Rightarrow> ('c \<Rightarrow> 'c) \<Rightarrow> 'c \<times> call list \<Rightarrow> 'c \<times> call list" where
  "run c f s = (f (fst s), snd s @ [c])"

text \<open>\<open>called_before a b cs\<close>: \<open>a\<close> is called, and \<open>b\<close> is called after the first call of \<open>a\<close>.\<close>

definition called_before :: "call \<Rightarrow> call \<Rightarrow> call list \<Rightarrow> bool" where
  "called_before a b cs = (b \<in> set (dropWhile (\<lambda>c. c \<noteq> a) cs))"

text \<open>The calls that produce an annotation of the link context.\<close>

definition annotation_passes :: "call list" where
  "annotation_passes =
     [Call_annotate_pb_types, Call_annotate_pb_graph, Call_annotate_rr_graph_circuit_models,
      Call_routing_annotation_init, Call_annotate_rr_node_nets, Call_annotate_device_rr_gsb,
      Call_build_device_mux_library, Call_build_device_tile_direct, Call_annotate_mapped_blocks]"

section \<open>The multiplexer library builder\<close>

text \<open>
  Modelled from the spec: \<^verbatim>\<open>build_device_mux_library\<close> (mux_library_builder.h) is
  called by \<^verbatim>\<open>link_arch\<close> and its body is not among the source files. The
  specification of the builder (section 4.6): for every multiplexer implied by a
  GSB's or pb-interconnect's fan-in structure, compute its structural signature
  and look it up in the growing library; if it is absent allocate a new canonical
  entry, else reuse the existing one. Identifiers are given in first-seen order.
\<close>

definition add_mux :: "'s \<Rightarrow> 's MuxLibrary \<Rightarrow> 's MuxLibrary" where
  "add_mux sig lib =
     (case map_of lib sig of
        Some mux_id \<Rightarrow> lib
      | None \<Rightarrow> lib @ [(sig, length lib)])"

definition build_device_mux_library ::
  "('u, 'a, 's) extern \<Rightarrow> 'u DeviceContext \<Rightarrow> ('u, 'a, 's) OpenfpgaContext \<Rightarrow> 's MuxLibrary" where
  "build_device_mux_library E dev openfpga_ctx =
     foldl (\<lambda>lib sig. add_mux sig lib) [] (find_device_muxes E dev openfpga_ctx)"

section \<open>The simulation-setting annotator\<close>

text \<open>
  \<^verbatim>\<open>annotate_simulation_setting\<close>. The global VPR context that
  \<^verbatim>\<open>load_net_delay_from_routing\<close> reads is the argument \<open>g\<close>. The critical-path
  delay and the slack are floats. In \<^verbatim>\<open>0. == operating_clock_frequency()\<close> the float
  is compared as a double. In the initialiser of \<^verbatim>\<open>T_crit\<close> the literal \<^verbatim>\<open>1.\<close> is a
  double, so the sum and the product are computed in double precision and the
  product is converted to the float \<^verbatim>\<open>T_crit\<close>; in \<^verbatim>\<open>1 / T_crit\<close> the integer 1
  becomes a float and the division is one of floats. The log messages are not
  modelled.
\<close>

definition annotate_simulation_setting ::
  "('u, 'a, 's) extern \<Rightarrow> 'u VprContext \<Rightarrow> 'u \<Rightarrow> SimulationSetting \<times> call list
     \<Rightarrow> SimulationSetting \<times> call list" where
  "annotate_simulation_setting E g atom_ctx s =
     (if c_float_eq (Finite 0) (operating_clock_frequency (fst s)) then
        (let s = run Call_load_net_delay_from_routing id s;
             net_delay = load_net_delay_from_routing E g;
             s = run Call_timing_info_update id s;
             delay = least_slack_critical_path_delay E atom_ctx net_delay;
             T_crit = fp_convert binary32
                        (fp_mul binary64 delay
                           (fp_add binary64 (Finite 1) (operating_clock_frequency_slack (fst s))))
         in (fst s\<lparr>operating_clock_frequency := fp_div binary32 (Finite 1) T_crit\<rparr>, snd s))
      else s)"

section \<open>Linking the architecture\<close>

text \<open>
  \<^verbatim>\<open>link_arch\<close>, statement by statement. The function returns nothing; the model
  returns the context it leaves and the calls it made.
\<close>

definition link_arch ::
  "('u, 'a, 's) extern \<Rightarrow> 'u VprContext \<Rightarrow> ('u, 'a, 's) OpenfpgaContext \<Rightarrow> CommandContext
     \<Rightarrow> ('u, 'a, 's) OpenfpgaContext \<times> call list" where
  "link_arch E g openfpga_ctx cmd_context =
     (let verbose = option_enable cmd_context ''verbose'';
          s = (openfpga_ctx, []);
          s = run Call_annotate_pb_types
                (\<lambda>c. c\<lparr>vpr_device_annotation :=
                    annotate_pb_types E (device g) (arch c) (vpr_device_annotation c) verbose\<rparr>) s;
          s = run Call_annotate_pb_graph
                (\<lambda>c. c\<lparr>vpr_device_annotation :=
                    annotate_pb_graph E (device g) (vpr_device_annotation c) verbose\<rparr>) s;
          s = run Call_annotate_rr_graph_circuit_models
                (\<lambda>c. c\<lparr>vpr_device_annotation :=
                    annotate_rr_graph_circuit_models E (device g) (arch c)
                      (vpr_device_annotation c) verbose\<rparr>) s;
          s = run Call_routing_annotation_init
                (\<lambda>c. c\<lparr>vpr_routing_annotation :=
                    routing_annotation_init E (vpr_routing_annotation c) (rr_graph (device g))\<rparr>) s;
          s = run Call_annotate_rr_node_nets
                (\<lambda>c. c\<lparr>vpr_routing_annotation :=
                    annotate_rr_node_nets E (device g) (clustering g) (routing g)
                      (vpr_routing_annotation c) verbose\<rparr>) s;
          s = run Call_is_vpr_rr_graph_supported id s
      in if False = is_vpr_rr_graph_supported (rr_graph (device g)) then s
         else
           (let s = run Call_annotate_device_rr_gsb
                      (\<lambda>c. c\<lparr>device_rr_gsb :=
                          annotate_device_rr_gsb E (device g) (device_rr_gsb c) verbose\<rparr>) s;
                s = run Call_build_device_mux_library
                      (\<lambda>c. c\<lparr>mux_lib := build_device_mux_library E (device g) c\<rparr>) s;
                s = run Call_build_device_tile_direct
                      (\<lambda>c. c\<lparr>tile_direct :=
                          build_device_tile_direct E (device g) (arch_direct (arch c))\<rparr>) s;
                s = run Call_annotate_mapped_blocks
                      (\<lambda>c. c\<lparr>vpr_placement_annotation :=
                          annotate_mapped_blocks E (device g) (clustering g) (placement g)
                            (vpr_placement_annotation c)\<rparr>) s;
                s = run Call_annotate_simulation_setting id s;
                t = annotate_simulation_setting E g (atom g) (sim_setting (arch (fst s)), snd s)
            in ((fst s)\<lparr>arch := (arch (fst s))\<lparr>sim_setting := fst t\<rparr>\<rparr>, snd t)))"

section \<open>Repacking\<close>

text \<open>
  Modelled from the spec: the macro \<^verbatim>\<open>VTR_ASSERT\<close> (vtr_assert.h) and the constant
  \<^verbatim>\<open>CMD_EXEC_SUCCESS\<close> (command_exit_codes.h) are not among the source files. A
  violated assertion is fatal and terminates the run (section 7, internal
  invariant violation); success is the completion code 0, every other code
  reports a failure (section 4.9).
\<close>

datatype fatal = VTR_ASSERT_FAILED

definition CMD_EXEC_SUCCESS :: int where
  "CMD_EXEC_SUCCESS = 0"

text \<open>
  \<^verbatim>\<open>repack\<close>. The local \<^verbatim>\<open>repack_design_constraints\<close> is default-constructed, and
  overwritten with the parsed file when the option is enabled; \<open>loaded\<close> is its
  value after the \<^verbatim>\<open>if\<close> block, or the failure of the assertion in the block.
  The two steps are called as statements: the exit codes \<open>pack_status\<close> and
  \<open>lut_status\<close> are not read.
\<close>

definition repack ::
  "('u, 'a, 's) extern \<Rightarrow> 'u VprContext \<Rightarrow> ('u, 'a, 's) OpenfpgaContext \<Rightarrow> CommandContext
     \<Rightarrow> fatal + int \<times> ('u, 'a, 's) OpenfpgaContext" where
  "repack E g openfpga_ctx cmd_context =
     (let opt_design_constraints = ''design_constraints'';
          opt_verbose = ''verbose'';
          loaded =
            (if option_enable cmd_context opt_design_constraints then
               (let dc_fname = option_value cmd_context opt_design_constraints
                in if dc_fname = [] then Inl VTR_ASSERT_FAILED
                   else Inr (read_xml_repack_design_constraints E dc_fname))
             else Inr [])
      in case loaded of
           Inl failure \<Rightarrow> Inl failure
         | Inr repack_design_constraints \<Rightarrow>
             (let (pack_status, device_annotation, clustering_annotation) =
                    pack_physical_pbs E (device g) (atom g) (clustering g)
                      (vpr_device_annotation openfpga_ctx)
                      (vpr_clustering_annotation openfpga_ctx)
                      (option_enable cmd_context opt_verbose);
                  openfpga_ctx = openfpga_ctx
                    \<lparr>vpr_device_annotation := device_annotation,
                     vpr_clustering_annotation := clustering_annotation\<rparr>;
                  (lut_status, clustering_annotation) =
                    build_physical_lut_truth_tables E
                      (vpr_clustering_annotation openfpga_ctx) (atom g) (clustering g)
                      (vpr_device_annotation openfpga_ctx) (circuit_lib (arch openfpga_ctx))
                      (option_enable cmd_context opt_verbose);
                  openfpga_ctx = openfpga_ctx\<lparr>vpr_clustering_annotation := clustering_annotation\<rparr>
              in Inr (CMD_EXEC_SUCCESS, openfpga_ctx)))"

section \<open>A minimal device\<close>

text \<open>
  Two routing-resource graphs of three nodes each: an output pin (node 0), a
  horizontal track (node 1) and a vertical track (node 2). In the first one both
  tracks have a direction; the pin's direction field holds BI_DIRECTION, which no
  check reads. In the second one the vertical track is bidirectional.
\<close>

definition ex_rr_graph_unidir :: RRGraph where
  "ex_rr_graph_unidir =
     \<lparr> nodes = [0, 1, 2],
       node_type = (\<lambda>n. if n = 1 then CHANX else if n = 2 then CHANY else OPIN),
       node_direction = (\<lambda>n. if n = 1 then INC_DIRECTION else if n = 2 then DEC_DIRECTION
                               else BI_DIRECTION) \<rparr>"

definition ex_rr_graph_bidir :: RRGraph where
  "ex_rr_graph_bidir =
     \<lparr> nodes = [0, 1, 2],
       node_type = (\<lambda>n. if n = 1 then CHANX else if n = 2 then CHANY else OPIN),
       node_direction = (\<lambda>n. if n = 1 then INC_DIRECTION else if n = 2 then BI_DIRECTION
                               else NO_DIRECTION) \<rparr>"

text \<open>
  A device around such a graph, with nothing in the opaque parts, and a context in
  which no annotation has been made yet. The configured slack is a quarter.
\<close>

definition ex_vpr :: "RRGraph \<Rightarrow> unit VprContext" where
  "ex_vpr G =
     \<lparr> device = \<lparr> rr_graph = G, device_rest = () \<rparr>,
       atom = (), clustering = (), placement = (), routing = () \<rparr>"

definition ex_openfpga_ctx :: "c_float \<Rightarrow> (unit, string list, nat) OpenfpgaContext" where
  "ex_openfpga_ctx freq =
     \<lparr> arch = \<lparr> circuit_lib = (), arch_direct = (),
                sim_setting = \<lparr> operating_clock_frequency = freq,
                                operating_clock_frequency_slack = Finite (1 / 4),
                                num_clock_cycles = 100 \<rparr>,
                arch_rest = () \<rparr>,
       vpr_device_annotation = [],
       vpr_clustering_annotation = [],
       vpr_routing_annotation = [],
       device_rr_gsb = [],
       mux_lib = [],
       tile_direct = [],
       vpr_placement_annotation = [] \<rparr>"

text \<open>
  Two command lines: one without options, and one with the option
  \<^verbatim>\<open>design_constraints\<close> enabled and holding a file name.
\<close>

definition ex_cmd_context :: CommandContext where
  "ex_cmd_context = \<lparr> option_enable = (\<lambda>opt. False), option_value = (\<lambda>opt. []) \<rparr>"

definition ex_cmd_context_dc :: "string \<Rightarrow> CommandContext" where
  "ex_cmd_context_dc fname =
     \<lparr> option_enable = (\<lambda>opt. opt = ''design_constraints''),
       option_value = (\<lambda>opt. if opt = ''design_constraints'' then fname else []) \<rparr>"

text \<open>
  Passes that record that they ran: an annotation is the list of the entries
  written to it. The device has two multiplexers of the same structure (two
  inputs each). The physical packing ends with the exit code \<open>pack_code\<close>, and the
  design-constraint file parses to \<open>constraints\<close>. The critical path takes 4 time
  units.
\<close>

definition ex_extern :: "int \<Rightarrow> RepackDesignConstraints \<Rightarrow> (unit, string list, nat) extern" where
  "ex_extern pack_code constraints =
     \<lparr> annotate_pb_types = (\<lambda>dev ar a verbose. a @ [''physical pb_type'']),
       annotate_pb_graph = (\<lambda>dev a verbose. a @ [''physical pb_graph pins'']),
       annotate_rr_graph_circuit_models = (\<lambda>dev ar a verbose. a @ [''rr_graph circuit models'']),
       routing_annotation_init = (\<lambda>a G. map (\<lambda>n. ''no net'') (nodes G)),
       annotate_rr_node_nets = (\<lambda>dev clus rout a verbose. a),
       annotate_device_rr_gsb = (\<lambda>dev a verbose. a @ [''gsb'']),
       find_device_muxes = (\<lambda>dev c. [2, 2]),
       build_device_tile_direct = (\<lambda>dev direct. []),
       annotate_mapped_blocks = (\<lambda>dev clus place a. a @ [''block'']),
       load_net_delay_from_routing = (\<lambda>g. ()),
       least_slack_critical_path_delay = (\<lambda>atom_ctx net_delay. Finite 4),
       read_xml_repack_design_constraints = (\<lambda>fname. constraints),
       pack_physical_pbs = (\<lambda>dev atom_ctx clus da ca verbose. (pack_code, da, ca @ [''physical pb''])),
       build_physical_lut_truth_tables =
         (\<lambda>ca atom_ctx clus da lib verbose. (0, ca @ [''physical truth table''])) \<rparr>"

section \<open>The compatibility checker\<close>

lemma rr_nodes_supported_iff:
  "rr_nodes_supported g ns =
     (\<not> list_ex (\<lambda>n. is_channel_node g n \<and> node_direction g n = BI_DIRECTION) ns)"
  by (induction ns) (auto simp: is_channel_node_def)

lemma is_vpr_rr_graph_supported_iff:
  "is_vpr_rr_graph_supported g = (\<not> has_bidirectional_channel_node g)"
  by (simp add: is_vpr_rr_graph_supported_def has_bidirectional_channel_node_def
      rr_nodes_supported_iff)

lemma rr_nodes_supported_cong:
  assumes "\<And>n. n \<in> set ns \<Longrightarrow> node_type g' n = node_type g n"
    and "\<And>n. n \<in> set ns \<Longrightarrow> is_channel_node g n \<Longrightarrow> node_direction g' n = node_direction g n"
  shows "rr_nodes_supported g' ns = rr_nodes_supported g ns"
  using assms by (induction ns) (auto simp: is_channel_node_def)

lemma rr_nodes_supported_filter:
  "rr_nodes_supported g (filter (is_channel_node g) ns) = rr_nodes_supported g ns"
  by (induction ns) (auto simp: is_channel_node_def)

text \<open>
  Claim C5. On a graph all of whose CHANX and CHANY nodes are uni-directional the
  checker returns true; on a graph with at least one bidirectional CHANX or CHANY
  node it returns false. Nodes of the other types do not affect the result: it is
  the same when they are removed from the graph, and the same whatever their
  direction fields hold.
\<close>

theorem is_vpr_rr_graph_supported_correct:
  "(all_channel_nodes_unidirectional g \<longrightarrow> is_vpr_rr_graph_supported g) \<and>
   (has_bidirectional_channel_node g \<longrightarrow> \<not> is_vpr_rr_graph_supported g) \<and>
   is_vpr_rr_graph_supported (g\<lparr>nodes := filter (is_channel_node g) (nodes g)\<rparr>)
     = is_vpr_rr_graph_supported g \<and>
   is_vpr_rr_graph_supported
       (g\<lparr>node_direction := (\<lambda>n. if is_channel_node g n then node_direction g n else d n)\<rparr>)
     = is_vpr_rr_graph_supported g"
proof (intro conjI impI)
  assume uni: "all_channel_nodes_unidirectional g"
  have "\<not> has_bidirectional_channel_node g"
  proof
    assume "has_bidirectional_channel_node g"
    then obtain n where n: "n \<in> set (nodes g)" "is_channel_node g n"
      "node_direction g n = BI_DIRECTION"
      by (auto simp: has_bidirectional_channel_node_def list_ex_iff)
    from uni n(1,2) have "is_unidirectional (node_direction g n)"
      by (auto simp: all_channel_nodes_unidirectional_def list_all_iff)
    with n(3) show False by (simp add: is_unidirectional_def)
  qed
  then show "is_vpr_rr_graph_supported g"
    by (simp add: is_vpr_rr_graph_supported_iff)
next
  assume "has_bidirectional_channel_node g"
  then show "\<not> is_vpr_rr_graph_supported g"
    by (simp add: is_vpr_rr_graph_supported_iff)
next
  have "rr_nodes_supported (g\<lparr>nodes := filter (is_channel_node g) (nodes g)\<rparr>)
          (filter (is_channel_node g) (nodes g))
        = rr_nodes_supported g (filter (is_channel_node g) (nodes g))"
    by (rule rr_nodes_supported_cong) (simp_all add: is_channel_node_def)
  then show "is_vpr_rr_graph_supported (g\<lparr>nodes := filter (is_channel_node g) (nodes g)\<rparr>)
      = is_vpr_rr_graph_supported g"
    by (simp add: is_vpr_rr_graph_supported_def rr_nodes_supported_filter)
next
  have "rr_nodes_supported
          (g\<lparr>node_direction := (\<lambda>n. if is_channel_node g n then node_direction g n else d n)\<rparr>)
          (nodes g)
        = rr_nodes_supported g (nodes g)"
    by (rule rr_nodes_supported_cong) (simp_all add: is_channel_node_def)
  then show "is_vpr_rr_graph_supported
       (g\<lparr>node_direction := (\<lambda>n. if is_channel_node g n then node_direction g n else d n)\<rparr>)
     = is_vpr_rr_graph_supported g"
    by (simp add: is_vpr_rr_graph_supported_def)
qed

theorem is_vpr_rr_graph_supported_correct_witness:
  "all_channel_nodes_unidirectional ex_rr_graph_unidir \<and>
   is_vpr_rr_graph_supported ex_rr_graph_unidir \<and>
   has_bidirectional_channel_node ex_rr_graph_bidir \<and>
   \<not> is_vpr_rr_graph_supported ex_rr_graph_bidir"
proof -
  have uni: "all_channel_nodes_unidirectional ex_rr_graph_unidir"
    by (simp add: all_channel_nodes_unidirectional_def ex_rr_graph_unidir_def
        is_channel_node_def is_unidirectional_def)
  have bi: "has_bidirectional_channel_node ex_rr_graph_bidir"
    by (simp add: has_bidirectional_channel_node_def ex_rr_graph_bidir_def is_channel_node_def)
  from uni bi
    is_vpr_rr_graph_supported_correct [of ex_rr_graph_unidir]
    is_vpr_rr_graph_supported_correct [of ex_rr_graph_bidir]
  show ?thesis by blast
qed

section \<open>Linking: what runs, and in which order\<close>

text \<open>
  Two facts about \<open>link_arch\<close> that the properties below share: the state it
  leaves when the checker rejects the graph, and the calls it makes.
\<close>

lemma link_arch_rejected:
  assumes "has_bidirectional_channel_node (rr_graph (device g))"
  shows "link_arch E g ctx cc =
     (ctx\<lparr>vpr_device_annotation :=
            annotate_rr_graph_circuit_models E (device g) (arch ctx)
              (annotate_pb_graph E (device g)
                 (annotate_pb_types E (device g) (arch ctx) (vpr_device_annotation ctx)
                    (option_enable cc ''verbose''))
                 (option_enable cc ''verbose''))
              (option_enable cc ''verbose''),
          vpr_routing_annotation :=
            annotate_rr_node_nets E (device g) (clustering g) (routing g)
              (routing_annotation_init E (vpr_routing_annotation ctx) (rr_graph (device g)))
              (option_enable cc ''verbose'')\<rparr>,
      [Call_annotate_pb_types, Call_annotate_pb_graph, Call_annotate_rr_graph_circuit_models,
       Call_routing_annotation_init, Call_annotate_rr_node_nets, Call_is_vpr_rr_graph_supported])"
  using assms by (simp add: link_arch_def run_def Let_def is_vpr_rr_graph_supported_iff)

lemma link_arch_calls:
  "snd (link_arch E g ctx cc) =
     [Call_annotate_pb_types, Call_annotate_pb_graph, Call_annotate_rr_graph_circuit_models,
      Call_routing_annotation_init, Call_annotate_rr_node_nets, Call_is_vpr_rr_graph_supported] @
     (if is_vpr_rr_graph_supported (rr_graph (device g)) then
        [Call_annotate_device_rr_gsb, Call_build_device_mux_library,
         Call_build_device_tile_direct, Call_annotate_mapped_blocks,
         Call_annotate_simulation_setting] @
        (if c_float_eq (Finite 0) (operating_clock_frequency (sim_setting (arch ctx)))
         then [Call_load_net_delay_from_routing, Call_timing_info_update] else [])
      else [])"
  by (simp add: link_arch_def run_def Let_def annotate_simulation_setting_def)

lemma ex_bidir: "has_bidirectional_channel_node ex_rr_graph_bidir"
  by (simp add: has_bidirectional_channel_node_def ex_rr_graph_bidir_def is_channel_node_def)

lemma ex_unidir: "is_vpr_rr_graph_supported ex_rr_graph_unidir"
  by (simp add: is_vpr_rr_graph_supported_def ex_rr_graph_unidir_def)

lemma called_before_simps:
  "called_before a b [] = False"
  "called_before a b (c # cs) = (if c = a then b \<in> set (c # cs) else called_before a b cs)"
  by (simp_all add: called_before_def)

text \<open>
  Claim C2, as the code has it. When the routing-resource graph contains a
  bidirectional channel node, \<open>link_arch\<close> returns right after the checker. By then
  the device annotation has been through \<open>annotate_pb_types\<close>, \<open>annotate_pb_graph\<close>
  and \<open>annotate_rr_graph_circuit_models\<close>, and the routing annotation has been
  initialised on the graph and handed to \<open>annotate_rr_node_nets\<close>. Nothing else
  of the context changes: the GSBs, the multiplexer library, the tile directs,
  the placement annotation, the clustering annotation and the architecture with
  its simulation setting are the ones of the call.
\<close>

theorem link_arch_unsupported_graph:
  assumes "has_bidirectional_channel_node (rr_graph (device g))"
  shows "fst (link_arch E g ctx cc) =
      ctx\<lparr>vpr_device_annotation :=
            annotate_rr_graph_circuit_models E (device g) (arch ctx)
              (annotate_pb_graph E (device g)
                 (annotate_pb_types E (device g) (arch ctx) (vpr_device_annotation ctx)
                    (option_enable cc ''verbose''))
                 (option_enable cc ''verbose''))
              (option_enable cc ''verbose''),
          vpr_routing_annotation :=
            annotate_rr_node_nets E (device g) (clustering g) (routing g)
              (routing_annotation_init E (vpr_routing_annotation ctx) (rr_graph (device g)))
              (option_enable cc ''verbose'')\<rparr> \<and>
    device_rr_gsb (fst (link_arch E g ctx cc)) = device_rr_gsb ctx \<and>
    mux_lib (fst (link_arch E g ctx cc)) = mux_lib ctx \<and>
    tile_direct (fst (link_arch E g ctx cc)) = tile_direct ctx \<and>
    vpr_placement_annotation (fst (link_arch E g ctx cc)) = vpr_placement_annotation ctx \<and>
    vpr_clustering_annotation (fst (link_arch E g ctx cc)) = vpr_clustering_annotation ctx \<and>
    arch (fst (link_arch E g ctx cc)) = arch ctx \<and>
    snd (link_arch E g ctx cc) =
      [Call_annotate_pb_types, Call_annotate_pb_graph, Call_annotate_rr_graph_circuit_models,
       Call_routing_annotation_init, Call_annotate_rr_node_nets, Call_is_vpr_rr_graph_supported]"
  by (simp add: link_arch_rejected [OF assms])

theorem link_arch_unsupported_graph_witness:
  "has_bidirectional_channel_node (rr_graph (device (ex_vpr ex_rr_graph_bidir))) \<and>
   device_rr_gsb (fst (link_arch (ex_extern 0 []) (ex_vpr ex_rr_graph_bidir)
       (ex_openfpga_ctx (Finite 0)) ex_cmd_context)) = [] \<and>
   mux_lib (fst (link_arch (ex_extern 0 []) (ex_vpr ex_rr_graph_bidir)
       (ex_openfpga_ctx (Finite 0)) ex_cmd_context)) = [] \<and>
   snd (link_arch (ex_extern 0 []) (ex_vpr ex_rr_graph_bidir)
       (ex_openfpga_ctx (Finite 0)) ex_cmd_context) =
      [Call_annotate_pb_types, Call_annotate_pb_graph, Call_annotate_rr_graph_circuit_models,
       Call_routing_annotation_init, Call_annotate_rr_node_nets, Call_is_vpr_rr_graph_supported]"
proof -
  have bi: "has_bidirectional_channel_node (rr_graph (device (ex_vpr ex_rr_graph_bidir)))"
    by (simp add: ex_vpr_def ex_bidir)
  from link_arch_unsupported_graph [OF bi, of "ex_extern 0 []" "ex_openfpga_ctx (Finite 0)" ex_cmd_context] bi
  show ?thesis by (simp add: ex_openfpga_ctx_def)
qed

text \<open>
  Claim C2 as it is stated fails: on the minimal device with a bidirectional
  vertical track, \<open>link_arch\<close> leaves a context that differs from the one it was
  called with. Its device annotation holds the three entries of the passes that
  ran before the checker, and its routing annotation has one entry per node.
\<close>

theorem link_arch_bidir_counterexample:
  "has_bidirectional_channel_node (rr_graph (device (ex_vpr ex_rr_graph_bidir))) \<and>
   fst (link_arch (ex_extern 0 []) (ex_vpr ex_rr_graph_bidir) (ex_openfpga_ctx (Finite 0))
          ex_cmd_context) \<noteq> ex_openfpga_ctx (Finite 0) \<and>
   vpr_device_annotation (fst (link_arch (ex_extern 0 []) (ex_vpr ex_rr_graph_bidir)
          (ex_openfpga_ctx (Finite 0)) ex_cmd_context)) =
     [''physical pb_type'', ''physical pb_graph pins'', ''rr_graph circuit models''] \<and>
   vpr_routing_annotation (fst (link_arch (ex_extern 0 []) (ex_vpr ex_rr_graph_bidir)
          (ex_openfpga_ctx (Finite 0)) ex_cmd_context)) = [''no net'', ''no net'', ''no net''] \<and>
   vpr_device_annotation (ex_openfpga_ctx (Finite 0)) = [] \<and>
   vpr_routing_annotation (ex_openfpga_ctx (Finite 0)) = []"
proof -
  have bi: "has_bidirectional_channel_node (rr_graph (device (ex_vpr ex_rr_graph_bidir)))"
    by (simp add: ex_vpr_def ex_bidir)
  have dev: "vpr_device_annotation (fst (link_arch (ex_extern 0 []) (ex_vpr ex_rr_graph_bidir)
          (ex_openfpga_ctx (Finite 0)) ex_cmd_context)) =
     [''physical pb_type'', ''physical pb_graph pins'', ''rr_graph circuit models'']"
    unfolding link_arch_rejected [OF bi] by (simp add: ex_extern_def ex_openfpga_ctx_def)
  have rout: "vpr_routing_annotation (fst (link_arch (ex_extern 0 []) (ex_vpr ex_rr_graph_bidir)
          (ex_openfpga_ctx (Finite 0)) ex_cmd_context)) = [''no net'', ''no net'', ''no net'']"
    unfolding link_arch_rejected [OF bi]
    by (simp add: ex_extern_def ex_openfpga_ctx_def ex_vpr_def ex_rr_graph_bidir_def)
  have old: "vpr_device_annotation (ex_openfpga_ctx (Finite 0)) = []"
    "vpr_routing_annotation (ex_openfpga_ctx (Finite 0)) = []"
    by (simp_all add: ex_openfpga_ctx_def)
  from dev old have "fst (link_arch (ex_extern 0 []) (ex_vpr ex_rr_graph_bidir)
      (ex_openfpga_ctx (Finite 0)) ex_cmd_context) \<noteq> ex_openfpga_ctx (Finite 0)"
    by (metis list.distinct(1))
  with bi dev rout old show ?thesis by simp
qed

text \<open>
  Claim C4, as the code has it. \<open>link_arch\<close> calls, in this order,
  \<open>annotate_pb_types\<close>, \<open>annotate_pb_graph\<close>, \<open>annotate_rr_graph_circuit_models\<close>, the
  initialisation of the routing annotation and \<open>annotate_rr_node_nets\<close>; then the
  checker; and, only when the checker accepts the graph, \<open>annotate_device_rr_gsb\<close>,
  \<open>build_device_mux_library\<close>, \<open>build_device_tile_direct\<close>, \<open>annotate_mapped_blocks\<close>
  and \<open>annotate_simulation_setting\<close> (which runs the timing analysis when the
  configured frequency compares equal to zero). So the checker runs after the physical-binding,
  circuit-model and routing-net annotators, and before the construction of the
  GSBs and of the multiplexer library, the tile directs and the placement
  annotation.
\<close>

theorem link_arch_call_order:
  "snd (link_arch E g ctx cc) =
     [Call_annotate_pb_types, Call_annotate_pb_graph, Call_annotate_rr_graph_circuit_models,
      Call_routing_annotation_init, Call_annotate_rr_node_nets, Call_is_vpr_rr_graph_supported] @
     (if is_vpr_rr_graph_supported (rr_graph (device g)) then
        [Call_annotate_device_rr_gsb, Call_build_device_mux_library,
         Call_build_device_tile_direct, Call_annotate_mapped_blocks,
         Call_annotate_simulation_setting] @
        (if c_float_eq (Finite 0) (operating_clock_frequency (sim_setting (arch ctx)))
         then [Call_load_net_delay_from_routing, Call_timing_info_update] else [])
      else []) \<and>
   list_all (\<lambda>p. called_before p Call_is_vpr_rr_graph_supported (snd (link_arch E g ctx cc)))
     [Call_annotate_pb_types, Call_annotate_pb_graph, Call_annotate_rr_graph_circuit_models,
      Call_routing_annotation_init, Call_annotate_rr_node_nets] \<and>
   list_all (\<lambda>p. \<not> called_before p Call_is_vpr_rr_graph_supported (snd (link_arch E g ctx cc)))
     [Call_annotate_device_rr_gsb, Call_build_device_mux_library,
      Call_build_device_tile_direct, Call_annotate_mapped_blocks,
      Call_annotate_simulation_setting] \<and>
   (is_vpr_rr_graph_supported (rr_graph (device g)) \<longrightarrow>
      list_all (\<lambda>p. called_before Call_is_vpr_rr_graph_supported p (snd (link_arch E g ctx cc)))
        [Call_annotate_device_rr_gsb, Call_build_device_mux_library,
         Call_build_device_tile_direct, Call_annotate_mapped_blocks,
         Call_annotate_simulation_setting])"
  unfolding link_arch_calls by (simp add: called_before_simps)

theorem link_arch_call_order_witness:
  "is_vpr_rr_graph_supported (rr_graph (device (ex_vpr ex_rr_graph_unidir))) \<and>
   snd (link_arch (ex_extern 0 []) (ex_vpr ex_rr_graph_unidir) (ex_openfpga_ctx (Finite 0))
          ex_cmd_context) =
     [Call_annotate_pb_types, Call_annotate_pb_graph, Call_annotate_rr_graph_circuit_models,
      Call_routing_annotation_init, Call_annotate_rr_node_nets, Call_is_vpr_rr_graph_supported,
      Call_annotate_device_rr_gsb, Call_build_device_mux_library,
      Call_build_device_tile_direct, Call_annotate_mapped_blocks,
      Call_annotate_simulation_setting, Call_load_net_delay_from_routing,
      Call_timing_info_update] \<and>
   called_before Call_is_vpr_rr_graph_supported Call_build_device_mux_library
     (snd (link_arch (ex_extern 0 []) (ex_vpr ex_rr_graph_unidir) (ex_openfpga_ctx (Finite 0))
          ex_cmd_context))"
proof -
  have sup: "is_vpr_rr_graph_supported (rr_graph (device (ex_vpr ex_rr_graph_unidir)))"
    by (simp add: ex_vpr_def ex_unidir)
  have freq: "c_float_eq (Finite 0)
      (operating_clock_frequency (sim_setting (arch (ex_openfpga_ctx (Finite 0)))))"
    by (simp add: ex_openfpga_ctx_def)
  from link_arch_call_order [of "ex_extern 0 []" "ex_vpr ex_rr_graph_unidir"
      "ex_openfpga_ctx (Finite 0)" ex_cmd_context] sup freq
  show ?thesis by (simp add: called_before_simps)
qed

text \<open>
  Claim C4 as it is stated fails: on the minimal device with uni-directional
  tracks, the checker is not called before \<open>annotate_pb_types\<close>, \<open>annotate_pb_graph\<close>,
  \<open>annotate_rr_graph_circuit_models\<close> or \<open>annotate_rr_node_nets\<close>; it is called after
  them.
\<close>

theorem link_arch_checker_first_counterexample:
  "Call_annotate_pb_types \<in> set annotation_passes \<and>
   \<not> called_before Call_is_vpr_rr_graph_supported Call_annotate_pb_types
       (snd (link_arch (ex_extern 0 []) (ex_vpr ex_rr_graph_unidir) (ex_openfpga_ctx (Finite 0))
          ex_cmd_context)) \<and>
   \<not> called_before Call_is_vpr_rr_graph_supported Call_annotate_pb_graph
       (snd (link_arch (ex_extern 0 []) (ex_vpr ex_rr_graph_unidir) (ex_openfpga_ctx (Finite 0))
          ex_cmd_context)) \<and>
   \<not> called_before Call_is_vpr_rr_graph_supported Call_annotate_rr_graph_circuit_models
       (snd (link_arch (ex_extern 0 []) (ex_vpr ex_rr_graph_unidir) (ex_openfpga_ctx (Finite 0))
          ex_cmd_context)) \<and>
   \<not> called_before Call_is_vpr_rr_graph_supported Call_annotate_rr_node_nets
       (snd (link_arch (ex_extern 0 []) (ex_vpr ex_rr_graph_unidir) (ex_openfpga_ctx (Finite 0))
          ex_cmd_context)) \<and>
   called_before Call_annotate_pb_types Call_is_vpr_rr_graph_supported
       (snd (link_arch (ex_extern 0 []) (ex_vpr ex_rr_graph_unidir) (ex_openfpga_ctx (Finite 0))
          ex_cmd_context))"
proof -
  have sup: "is_vpr_rr_graph_supported (rr_graph (device (ex_vpr ex_rr_graph_unidir)))"
    by (simp add: ex_vpr_def ex_unidir)
  show ?thesis
    unfolding link_arch_calls by (simp add: sup called_before_simps annotation_passes_def)
qed

section \<open>Floating-point rounding\<close>

lemma c_float_eq_zero_iff: "c_float_eq (Finite 0) x = (x = Finite 0 \<or> x = NegZero)"
  by (cases x) auto

lemma bitlen_numeral_simps:
  "bitlen 1 = 1"
  "bitlen (numeral (Num.Bit0 k)) = bitlen (numeral k) + 1"
  "bitlen (numeral (Num.Bit1 k)) = bitlen (numeral k) + 1"
proof -
  show "bitlen 1 = 1" by (subst compute_bitlen) simp
  have "bitlen (numeral (Num.Bit0 k)) = bitlen (numeral (Num.Bit0 k) div 2) + 1"
    by (subst compute_bitlen) simp
  then show "bitlen (numeral (Num.Bit0 k)) = bitlen (numeral k) + 1" by simp
  have "bitlen (numeral (Num.Bit1 k)) = bitlen (numeral (Num.Bit1 k) div 2) + 1"
    by (subst compute_bitlen) simp
  then show "bitlen (numeral (Num.Bit1 k)) = bitlen (numeral k) + 1" by simp
qed

lemma ilog2_bounds:
  assumes "0 < a"
  shows "2 powi (ilog2 a) \<le> a" and "a < 2 powi (ilog2 a + 1)"
proof -
  have "2 powi (ilog2 a) \<le> a \<and> a < 2 powi (ilog2 a + 1)"
  proof (cases "1 \<le> a")
    case True
    define n where "n = \<lfloor>a\<rfloor>"
    have n: "0 < n" using True by (simp add: n_def)
    from bitlen_bounds [OF n] have lo: "2 ^ nat (bitlen n - 1) \<le> n" and hi: "n < 2 ^ nat (bitlen n)"
      by simp_all
    have k: "1 \<le> bitlen n" using n by (simp add: bitlen_alt_def)
    have "real_of_int (2 ^ nat (bitlen n - 1)) \<le> real_of_int n" using lo by linarith
    also have "\<dots> \<le> a" by (simp add: n_def)
    finally have 1: "2 powi (bitlen n - 1) \<le> a"
      using k by (simp add: power_int_nonneg_exp)
    have "n + 1 \<le> 2 ^ nat (bitlen n)" using hi by simp
    then have "real_of_int (n + 1) \<le> real_of_int (2 ^ nat (bitlen n))" by linarith
    moreover have "a < real_of_int (n + 1)" by (simp add: n_def)
    ultimately have 2: "a < 2 powi (bitlen n)"
      using k by (simp add: power_int_nonneg_exp)
    from 1 2 True show ?thesis by (simp add: ilog2_def n_def)
  next
    case False
    define m where "m = \<lceil>1 / a\<rceil> - 1"
    define k where "k = bitlen m"
    from False assms have "1 < 1 / a" by simp
    then have "1 < \<lceil>1 / a\<rceil>" by (simp add: less_ceiling_iff)
    then have m: "0 < m" by (simp add: m_def)
    from bitlen_bounds [OF m] have lo: "2 ^ nat (k - 1) \<le> m" and hi: "m < 2 ^ nat k"
      by (simp_all add: k_def)
    have k: "1 \<le> k" using m by (simp add: k_def bitlen_alt_def)
    have "1 / a \<le> real_of_int (m + 1)" by (simp add: m_def)
    also have "real_of_int (m + 1) \<le> real_of_int (2 ^ nat k)" using hi by linarith
    finally have "1 / a \<le> 2 ^ nat k" by simp
    then have "1 / 2 ^ nat k \<le> a" using assms
      by (simp add: field_simps)
    then have 1: "2 powi (- k) \<le> a"
      using k by (simp add: power_int_minus_divide power_int_nonneg_exp)
    have "real_of_int m < 1 / a" by (simp add: m_def; linarith)
    moreover have "(2::real) ^ nat (k - 1) \<le> real_of_int m"
      using lo of_int_le_iff [of "2 ^ nat (k - 1)" m, where ?'a = real] by simp
    ultimately have "2 ^ nat (k - 1) < 1 / a" by linarith
    then have "a < 1 / 2 ^ nat (k - 1)" using assms
      by (simp add: field_simps)
    moreover have "(2::real) powi (- k + 1) = 1 / 2 ^ nat (k - 1)"
    proof -
      have "(2::real) powi (- k + 1) = 2 powi (- (k - 1))" by simp
      also have "\<dots> = 1 / 2 powi (k - 1)" by (rule power_int_minus_divide)
      also have "\<dots> = 1 / 2 ^ nat (k - 1)" using k by (simp add: power_int_nonneg_exp)
      finally show ?thesis .
    qed
    ultimately have 2: "a < 2 powi (- k + 1)" by simp
    from 1 2 False show ?thesis by (simp add: ilog2_def m_def k_def)
  qed
  then show "2 powi (ilog2 a) \<le> a" and "a < 2 powi (ilog2 a + 1)" by simp_all
qed

lemma round_half_even_error: "\<bar>of_int (round_half_even x) - x\<bar> \<le> 1 / 2"
  unfolding round_half_even_def Let_def by (auto split: if_splits; linarith)

lemma round_nearest_rel:
  assumes lo: "2 powi (emin F) \<le> \<bar>r\<bar>" and hi: "\<bar>r\<bar> \<le> 2 powi (emax F)"
    and p: "1 \<le> precision F"
  shows "\<exists>y. round_nearest F r = Finite y \<and> rel_close (1 / 2 ^ precision F) r y"
proof -
  define e where "e = ilog2 \<bar>r\<bar>"
  define ulp :: real where "ulp = 2 powi (e - (int (precision F) - 1))"
  define n where "n = round_half_even (r / ulp)"
  define y where "y = of_int n * ulp"
  have r0: "0 < \<bar>r\<bar>" using lo by (smt (verit) zero_less_power_int)
  have e_lo: "2 powi e \<le> \<bar>r\<bar>" and e_hi: "\<bar>r\<bar> < 2 powi (e + 1)"
    using ilog2_bounds [OF r0] by (simp_all add: e_def)
  from lo e_hi have "(2::real) powi (emin F) < 2 powi (e + 1)" by linarith
  have "emin F < e + 1"
  proof (rule ccontr)
    assume "\<not> emin F < e + 1"
    then have "e + 1 \<le> emin F" by simp
    then have "(2::real) powi (e + 1) \<le> 2 powi (emin F)" by (rule power_int_increasing) simp
    with \<open>(2::real) powi (emin F) < 2 powi (e + 1)\<close> show False by linarith
  qed
  then have emax: "max (emin F) e = e" by simp
  have ulp0: "0 < ulp" by (simp add: ulp_def)
  have "\<bar>of_int n - r / ulp\<bar> \<le> 1 / 2" unfolding n_def by (rule round_half_even_error)
  then have "\<bar>of_int n - r / ulp\<bar> * ulp \<le> 1 / 2 * ulp"
    using ulp0 by (simp add: mult_right_mono)
  moreover have "\<bar>of_int n - r / ulp\<bar> * ulp = \<bar>y - r\<bar>"
  proof -
    have "\<bar>of_int n - r / ulp\<bar> * ulp = \<bar>(of_int n - r / ulp) * ulp\<bar>"
      using ulp0 by (simp add: abs_mult)
    also have "(of_int n - r / ulp) * ulp = y - r"
      using ulp0 by (simp add: y_def field_simps)
    finally show ?thesis .
  qed
  ultimately have err: "\<bar>y - r\<bar> \<le> ulp / 2" by simp
  have "ulp = 2 powi e / 2 ^ (precision F - 1)"
  proof -
    have "e - (int (precision F) - 1) = e + (- (int (precision F) - 1))" by simp
    then have "ulp = 2 powi (e + (- (int (precision F) - 1)))"
      unfolding ulp_def by (rule arg_cong)
    also have "\<dots> = 2 powi e * 2 powi (- (int (precision F) - 1))"
      by (rule power_int_add) simp
    also have "(2::real) powi (- (int (precision F) - 1)) = 1 / 2 powi (int (precision F) - 1)"
      by (rule power_int_minus_divide)
    also have "(2::real) powi (int (precision F) - 1) = 2 ^ (precision F - 1)"
      using p by (simp add: power_int_nonneg_exp nat_diff_distrib')
    finally show ?thesis by simp
  qed
  then have "ulp / 2 = 2 powi e / (2 * 2 ^ (precision F - 1))" by simp
  also have "(2::real) * 2 ^ (precision F - 1) = 2 ^ precision F"
    using p by (cases "precision F") simp_all
  finally have half: "ulp / 2 = 2 powi e / 2 ^ precision F" .
  have "2 powi e / 2 ^ precision F \<le> \<bar>r\<bar> / 2 ^ precision F"
    using e_lo by (simp add: divide_right_mono)
  with err half have close: "\<bar>y - r\<bar> \<le> \<bar>r\<bar> / 2 ^ precision F" by linarith
  have "(2::real) ^ precision F \<ge> 2" using p
    by (metis One_nat_def power_increasing power_one_right one_le_numeral)
  then have "\<bar>r\<bar> / 2 ^ precision F \<le> \<bar>r\<bar> / 2"
    by (intro divide_left_mono) simp_all
  with close have close2: "\<bar>y - r\<bar> \<le> \<bar>r\<bar> / 2" by linarith
  then have y_pos: "0 < \<bar>y\<bar>" and y_up: "\<bar>y\<bar> \<le> \<bar>r\<bar> * (3 / 2)" using r0 by linarith+
  have "\<bar>r\<bar> * (3 / 2) < 2 powi (emax F) * 2" using hi r0 by linarith
  also have "\<dots> = 2 powi (emax F + 1)" by (simp add: power_int_add)
  finally have no_ovf: "\<not> 2 powi (emax F + 1) \<le> \<bar>y\<bar>" using y_up by linarith
  have n0: "n \<noteq> 0" using y_pos by (auto simp: y_def)
  have "round_nearest F r = Finite y"
    using no_ovf n0 r0
    by (simp add: round_nearest_def Let_def emax e_def [symmetric] ulp_def [symmetric]
        n_def [symmetric] y_def [symmetric])
  with close show ?thesis by (auto simp: rel_close_def)
qed

lemma rel_close_mult: "rel_close eps x y \<Longrightarrow> rel_close eps (a * x) (a * y)"
proof -
  assume "rel_close eps x y"
  then have "\<bar>a\<bar> * \<bar>y - x\<bar> \<le> \<bar>a\<bar> * (eps * \<bar>x\<bar>)"
    by (simp add: rel_close_def mult_left_mono)
  moreover have "\<bar>a * y - a * x\<bar> = \<bar>a\<bar> * \<bar>y - x\<bar>"
    by (simp add: abs_mult [symmetric] right_diff_distrib)
  ultimately show ?thesis by (simp add: rel_close_def abs_mult mult.left_commute)
qed

lemma rel_close_bounds:
  assumes "rel_close eps x y" and "eps \<le> 1 / 2"
  shows "\<bar>x\<bar> / 2 \<le> \<bar>y\<bar>" and "\<bar>y\<bar> \<le> 2 * \<bar>x\<bar>"
proof -
  have "eps * \<bar>x\<bar> \<le> 1 / 2 * \<bar>x\<bar>" using assms(2) by (intro mult_right_mono) simp_all
  with assms(1) have "\<bar>y - x\<bar> \<le> \<bar>x\<bar> / 2" by (simp add: rel_close_def)
  then show "\<bar>x\<bar> / 2 \<le> \<bar>y\<bar>" and "\<bar>y\<bar> \<le> 2 * \<bar>x\<bar>" by linarith+
qed

lemma rel_close_trans:
  assumes "rel_close e1 x y" and "rel_close e2 y z" and "0 \<le> e2"
  shows "rel_close (e1 + e2 + e1 * e2) x z"
proof -
  from assms(1) have xy: "\<bar>y - x\<bar> \<le> e1 * \<bar>x\<bar>" by (simp add: rel_close_def)
  then have "\<bar>y\<bar> \<le> \<bar>x\<bar> + e1 * \<bar>x\<bar>" by linarith
  then have "e2 * \<bar>y\<bar> \<le> e2 * (\<bar>x\<bar> + e1 * \<bar>x\<bar>)" using assms(3) by (rule mult_left_mono)
  moreover from assms(2) have "\<bar>z - y\<bar> \<le> e2 * \<bar>y\<bar>" by (simp add: rel_close_def)
  ultimately have "\<bar>z - x\<bar> \<le> e1 * \<bar>x\<bar> + e2 * (\<bar>x\<bar> + e1 * \<bar>x\<bar>)" using xy by linarith
  then show ?thesis by (simp add: rel_close_def algebra_simps)
qed

lemma rel_close_mono: "rel_close e1 x y \<Longrightarrow> e1 \<le> e2 \<Longrightarrow> rel_close e2 x y"
proof -
  assume a: "rel_close e1 x y" and b: "e1 \<le> e2"
  have "e1 * \<bar>x\<bar> \<le> e2 * \<bar>x\<bar>" using b by (intro mult_right_mono) simp_all
  with a show ?thesis by (simp add: rel_close_def)
qed

lemma rel_close_inverse:
  assumes "rel_close eps x y" and "0 \<le> eps" and "eps < 1" and "x \<noteq> 0"
  shows "rel_close (eps / (1 - eps)) (1 / x) (1 / y)"
proof -
  from assms(1) have xy: "\<bar>y - x\<bar> \<le> eps * \<bar>x\<bar>" by (simp add: rel_close_def)
  then have ylo: "(1 - eps) * \<bar>x\<bar> \<le> \<bar>y\<bar>" by (simp add: algebra_simps; linarith)
  have x0: "0 < \<bar>x\<bar>" using assms(4) by simp
  have "0 < (1 - eps) * \<bar>x\<bar>" using assms(3) x0 by simp
  with ylo have y0: "0 < \<bar>y\<bar>" by linarith
  then have yn: "y \<noteq> 0" by auto
  have "1 / y - 1 / x = (x - y) / (x * y)" using assms(4) yn by (simp add: field_simps)
  then have "\<bar>1 / y - 1 / x\<bar> = \<bar>y - x\<bar> / (\<bar>x\<bar> * \<bar>y\<bar>)"
    by (simp add: abs_mult abs_minus_commute)
  also have "\<dots> \<le> eps * \<bar>x\<bar> / (\<bar>x\<bar> * \<bar>y\<bar>)"
    using xy x0 y0 by (intro divide_right_mono) simp_all
  also have "\<dots> = eps / \<bar>y\<bar>" using x0 by simp
  also have "\<dots> \<le> eps / ((1 - eps) * \<bar>x\<bar>)"
    using ylo assms(2,3) x0 by (simp add: frac_le)
  also have "\<dots> = eps / (1 - eps) * \<bar>1 / x\<bar>" by simp
  finally show ?thesis by (simp add: rel_close_def)
qed

lemma normal_range:
  fixes r :: real
  assumes "1 / 2 ^ 103 \<le> \<bar>r\<bar>" and "\<bar>r\<bar> \<le> 2 ^ 103"
  shows "2 powi (emin binary64) \<le> \<bar>r\<bar>" "\<bar>r\<bar> \<le> 2 powi (emax binary64)"
    "2 powi (emin binary32) \<le> \<bar>r\<bar>" "\<bar>r\<bar> \<le> 2 powi (emax binary32)"
proof -
  have a: "(2::real) powi (- 1022) \<le> 1 / 2 ^ 103" and b: "(2::real) powi (- 126) \<le> 1 / 2 ^ 103"
    and c: "(2::real) ^ 103 \<le> 2 powi 1023" and d: "(2::real) ^ 103 \<le> 2 powi 127"
    by simp_all
  show "2 powi (emin binary64) \<le> \<bar>r\<bar>"
    using order_trans [OF a assms(1)] by (simp add: binary64_def)
  show "\<bar>r\<bar> \<le> 2 powi (emax binary64)"
    using order_trans [OF assms(2) c] by (simp add: binary64_def)
  show "2 powi (emin binary32) \<le> \<bar>r\<bar>"
    using order_trans [OF b assms(1)] by (simp add: binary32_def)
  show "\<bar>r\<bar> \<le> 2 powi (emax binary32)"
    using order_trans [OF assms(2) d] by (simp add: binary32_def)
qed

lemma round_nearest_binary64:
  assumes "1 / 2 ^ 103 \<le> \<bar>r\<bar>" and "\<bar>r\<bar> \<le> 2 ^ 103"
  shows "\<exists>y. round_nearest binary64 r = Finite y \<and> rel_close (1 / 2 ^ 53) r y"
  using round_nearest_rel [of binary64 r] normal_range [OF assms]
  by (simp add: binary64_def)

lemma round_nearest_binary32:
  assumes "1 / 2 ^ 103 \<le> \<bar>r\<bar>" and "\<bar>r\<bar> \<le> 2 ^ 103"
  shows "\<exists>y. round_nearest binary32 r = Finite y \<and> rel_close (1 / 2 ^ 24) r y"
  using round_nearest_rel [of binary32 r] normal_range [OF assms]
  by (simp add: binary32_def)

lemma derived_frequency_close:
  assumes s_lo: "1 / 2 ^ 100 \<le> \<bar>1 + s\<bar>" and s_hi: "\<bar>1 + s\<bar> \<le> 2 ^ 100"
    and X_lo: "1 / 2 ^ 100 \<le> \<bar>T * (1 + s)\<bar>" and X_hi: "\<bar>T * (1 + s)\<bar> \<le> 2 ^ 100"
  shows "\<exists>f. fp_div binary32 (Finite 1)
            (fp_convert binary32
               (fp_mul binary64 (Finite T) (fp_add binary64 (Finite 1) (Finite s)))) = Finite f
          \<and> rel_close (1 / 2 ^ 22) (1 / (T * (1 + s))) f"
proof -
  define X where "X = T * (1 + s)"
  have X0: "X \<noteq> 0" and T0: "T \<noteq> 0" and r0: "1 + s \<noteq> 0"
    using X_lo by (auto simp: X_def)
  \<comment> \<open>the sum, in double precision\<close>
  have "1 / 2 ^ 103 \<le> \<bar>1 + s\<bar>" "\<bar>1 + s\<bar> \<le> 2 ^ 103"
    using s_lo s_hi by simp_all
  from round_nearest_binary64 [OF this] obtain u
    where u: "round_nearest binary64 (1 + s) = Finite u"
      and u_close: "rel_close (1 / 2 ^ 53) (1 + s) u"
    by blast
  have add: "fp_add binary64 (Finite 1) (Finite s) = Finite u"
    using r0 u by (simp add: fp_add_def is_inf_def)
  \<comment> \<open>the product, in double precision\<close>
  have Tu_close: "rel_close (1 / 2 ^ 53) X (T * u)"
    unfolding X_def using u_close by (rule rel_close_mult)
  from rel_close_bounds [OF Tu_close] have Tu_lo: "\<bar>X\<bar> / 2 \<le> \<bar>T * u\<bar>" and Tu_hi: "\<bar>T * u\<bar> \<le> 2 * \<bar>X\<bar>"
    by simp_all
  have "1 / 2 ^ 103 \<le> \<bar>T * u\<bar>" "\<bar>T * u\<bar> \<le> 2 ^ 103"
    using Tu_lo Tu_hi X_lo X_hi by (simp_all add: X_def)
  from round_nearest_binary64 [OF this] obtain v
    where v: "round_nearest binary64 (T * u) = Finite v"
      and v_close: "rel_close (1 / 2 ^ 53) (T * u) v"
    by blast
  have u0: "u \<noteq> 0" using Tu_lo X0 by auto
  have mul: "fp_mul binary64 (Finite T) (Finite u) = Finite v"
    using T0 u0 v by (simp add: fp_mul_def is_inf_def is_zero_def)
  have "rel_close (1 / 2 ^ 53 + 1 / 2 ^ 53 + 1 / 2 ^ 53 * (1 / 2 ^ 53)) X v"
    using Tu_close v_close by (rule rel_close_trans) simp
  then have Xv: "rel_close (1 / 2 ^ 51) X v"
    by (rule rel_close_mono) simp
  from rel_close_bounds [OF Xv] have v_lo: "\<bar>X\<bar> / 2 \<le> \<bar>v\<bar>" and v_hi: "\<bar>v\<bar> \<le> 2 * \<bar>X\<bar>"
    by simp_all
  \<comment> \<open>the conversion to float\<close>
  have "1 / 2 ^ 103 \<le> \<bar>v\<bar>" "\<bar>v\<bar> \<le> 2 ^ 103"
    using v_lo v_hi X_lo X_hi by (simp_all add: X_def)
  from round_nearest_binary32 [OF this] obtain w
    where w: "round_nearest binary32 v = Finite w"
      and w_close: "rel_close (1 / 2 ^ 24) v w"
    by blast
  have v0: "v \<noteq> 0" using v_lo X0 by auto
  have conv: "fp_convert binary32 (Finite v) = Finite w"
    using v0 w by (simp add: fp_convert_def)
  have "rel_close (1 / 2 ^ 51 + 1 / 2 ^ 24 + 1 / 2 ^ 51 * (1 / 2 ^ 24)) X w"
    using Xv w_close by (rule rel_close_trans) simp
  then have Xw: "rel_close (1 / 2 ^ 23) X w"
    by (rule rel_close_mono) simp
  from rel_close_bounds [OF Xw] have w_lo: "\<bar>X\<bar> / 2 \<le> \<bar>w\<bar>" and w_hi: "\<bar>w\<bar> \<le> 2 * \<bar>X\<bar>"
    by simp_all
  have w0: "w \<noteq> 0" using w_lo X0 by auto
  \<comment> \<open>the division of floats\<close>
  have "rel_close (1 / 2 ^ 23 / (1 - 1 / 2 ^ 23)) (1 / X) (1 / w)"
    using Xw by (rule rel_close_inverse) (simp_all add: X0)
  then have inv: "rel_close (1 / 2 ^ 23 + 1 / 2 ^ 45) (1 / X) (1 / w)"
    by (rule rel_close_mono) simp
  have w_pos: "0 < \<bar>w\<bar>" using w0 by simp
  have "1 / \<bar>w\<bar> \<le> 1 / (\<bar>X\<bar> / 2)"
    using w_lo X0 by (intro divide_left_mono) simp_all
  also have "\<dots> \<le> 1 / (1 / 2 ^ 100 / 2)"
    using X_lo X0 by (intro divide_left_mono) (simp_all add: X_def)
  finally have iw_hi: "\<bar>1 / w\<bar> \<le> 2 ^ 103" by simp
  have "1 / (2 * 2 ^ 100) \<le> 1 / (2 * \<bar>X\<bar>)"
    using X_hi X0 by (intro divide_left_mono) (simp_all add: X_def)
  also have "\<dots> \<le> 1 / \<bar>w\<bar>"
    using w_hi w_pos by (intro divide_left_mono) simp_all
  finally have iw_lo: "1 / 2 ^ 103 \<le> \<bar>1 / w\<bar>" by simp
  from round_nearest_binary32 [OF iw_lo iw_hi] obtain f
    where f: "round_nearest binary32 (1 / w) = Finite f"
      and f_close: "rel_close (1 / 2 ^ 24) (1 / w) f"
    by blast
  have div: "fp_div binary32 (Finite 1) (Finite w) = Finite f"
    using w0 f by (simp add: fp_div_def is_inf_def is_zero_def)
  have "rel_close (1 / 2 ^ 23 + 1 / 2 ^ 45 + 1 / 2 ^ 24 + (1 / 2 ^ 23 + 1 / 2 ^ 45) * (1 / 2 ^ 24))
      (1 / X) f"
    using inv f_close by (rule rel_close_trans) simp
  then have "rel_close (1 / 2 ^ 22) (1 / X) f"
    by (rule rel_close_mono) simp
  with add mul conv div show ?thesis by (simp add: X_def)
qed

section \<open>The simulation setting\<close>

text \<open>
  Claim C6, as the code has it. When the configured operating clock frequency
  compares equal to zero, \<open>annotate_simulation_setting\<close> stores the quotient of
  floats \<open>1 / T_crit\<close>, where \<open>T_crit\<close> is the float nearest to the double-precision
  product of the critical-path delay and the double-precision sum of 1 and the
  slack; all other fields are left as they are. For a finite delay \<open>T\<close> and slack
  \<open>s\<close> such that the magnitudes of \<open>1 + s\<close> and of \<open>T * (1 + s)\<close> lie between \<open>2^-100\<close>
  and \<open>2^100\<close>, the stored frequency is finite and equals \<open>1 / (T * (1 + s))\<close> up to
  a relative error of \<open>2^-22\<close>.
\<close>

theorem annotate_simulation_setting_derived_frequency:
  assumes "c_float_eq (Finite 0) (operating_clock_frequency sim)"
  shows "fst (annotate_simulation_setting E g atom_ctx (sim, calls)) =
      sim\<lparr>operating_clock_frequency :=
        fp_div binary32 (Finite 1)
          (fp_convert binary32
             (fp_mul binary64
                (least_slack_critical_path_delay E atom_ctx (load_net_delay_from_routing E g))
                (fp_add binary64 (Finite 1) (operating_clock_frequency_slack sim))))\<rparr> \<and>
    (least_slack_critical_path_delay E atom_ctx (load_net_delay_from_routing E g) = Finite T \<and>
     operating_clock_frequency_slack sim = Finite s \<and>
     1 / 2 ^ 100 \<le> \<bar>1 + s\<bar> \<and> \<bar>1 + s\<bar> \<le> 2 ^ 100 \<and>
     1 / 2 ^ 100 \<le> \<bar>T * (1 + s)\<bar> \<and> \<bar>T * (1 + s)\<bar> \<le> 2 ^ 100 \<longrightarrow>
     (\<exists>f. operating_clock_frequency (fst (annotate_simulation_setting E g atom_ctx (sim, calls)))
            = Finite f \<and>
          \<bar>f - 1 / (T * (1 + s))\<bar> \<le> \<bar>1 / (T * (1 + s))\<bar> / 2 ^ 22))"
proof (intro conjI impI)
  show shape: "fst (annotate_simulation_setting E g atom_ctx (sim, calls)) =
      sim\<lparr>operating_clock_frequency :=
        fp_div binary32 (Finite 1)
          (fp_convert binary32
             (fp_mul binary64
                (least_slack_critical_path_delay E atom_ctx (load_net_delay_from_routing E g))
                (fp_add binary64 (Finite 1) (operating_clock_frequency_slack sim))))\<rparr>"
    using assms by (simp add: annotate_simulation_setting_def run_def Let_def)
  assume range: "least_slack_critical_path_delay E atom_ctx (load_net_delay_from_routing E g)
       = Finite T \<and>
     operating_clock_frequency_slack sim = Finite s \<and>
     1 / 2 ^ 100 \<le> \<bar>1 + s\<bar> \<and> \<bar>1 + s\<bar> \<le> 2 ^ 100 \<and>
     1 / 2 ^ 100 \<le> \<bar>T * (1 + s)\<bar> \<and> \<bar>T * (1 + s)\<bar> \<le> 2 ^ 100"
  then obtain f where f: "fp_div binary32 (Finite 1)
            (fp_convert binary32
               (fp_mul binary64 (Finite T) (fp_add binary64 (Finite 1) (Finite s)))) = Finite f"
    and close: "rel_close (1 / 2 ^ 22) (1 / (T * (1 + s))) f"
    using derived_frequency_close [of s T] by blast
  from close have "\<bar>f - 1 / (T * (1 + s))\<bar> \<le> \<bar>1 / (T * (1 + s))\<bar> / 2 ^ 22"
    by (simp add: rel_close_def)
  moreover have "operating_clock_frequency
      (fst (annotate_simulation_setting E g atom_ctx (sim, calls))) = Finite f"
    unfolding shape using range f by simp
  ultimately show "\<exists>f. operating_clock_frequency
        (fst (annotate_simulation_setting E g atom_ctx (sim, calls))) = Finite f \<and>
      \<bar>f - 1 / (T * (1 + s))\<bar> \<le> \<bar>1 / (T * (1 + s))\<bar> / 2 ^ 22"
    by blast
qed

text \<open>A delay that makes \<open>T_crit\<close> a zero gives an infinite frequency, of the sign of the zero.\<close>

lemma float_div_by_zero:
  "fp_div binary32 (Finite 1) (Finite 0) = PosInf"
  "fp_div binary32 (Finite 1) NegZero = NegInf"
  by (simp_all add: fp_div_def is_inf_def is_zero_def signed_inf_def)

lemma ex_derived_frequency:
  "fp_div binary32 (Finite 1)
     (fp_convert binary32
        (fp_mul binary64 (Finite 4) (fp_add binary64 (Finite 1) (Finite (1 / 4)))))
   = Finite (13421773 / 67108864)"
proof -
  have "fp_add binary64 (Finite 1) (Finite (1 / 4)) = Finite (5 / 4)"
    by (simp add: fp_add_def is_inf_def round_nearest_def binary64_def ilog2_def
        bitlen_numeral_simps round_half_even_def Let_def)
  moreover have "fp_mul binary64 (Finite 4) (Finite (5 / 4)) = Finite 5"
    by (simp add: fp_mul_def is_inf_def is_zero_def round_nearest_def binary64_def ilog2_def
        bitlen_numeral_simps round_half_even_def Let_def)
  moreover have "fp_convert binary32 (Finite 5) = Finite 5"
    by (simp add: fp_convert_def round_nearest_def binary32_def ilog2_def
        bitlen_numeral_simps round_half_even_def Let_def)
  moreover have "fp_div binary32 (Finite 1) (Finite 5) = Finite (13421773 / 67108864)"
    by (simp add: fp_div_def is_inf_def is_zero_def round_nearest_def binary32_def ilog2_def
        bitlen_numeral_simps round_half_even_def Let_def)
  ultimately show ?thesis by simp
qed

theorem annotate_simulation_setting_derived_frequency_witness:
  "c_float_eq (Finite 0)
     (operating_clock_frequency (sim_setting (arch (ex_openfpga_ctx (Finite 0))))) \<and>
   least_slack_critical_path_delay (ex_extern 0 []) ()
     (load_net_delay_from_routing (ex_extern 0 []) (ex_vpr ex_rr_graph_unidir)) = Finite 4 \<and>
   operating_clock_frequency_slack (sim_setting (arch (ex_openfpga_ctx (Finite 0))))
     = Finite (1 / 4) \<and>
   fst (annotate_simulation_setting (ex_extern 0 []) (ex_vpr ex_rr_graph_unidir) ()
      (sim_setting (arch (ex_openfpga_ctx (Finite 0))), [])) =
     (sim_setting (arch (ex_openfpga_ctx (Finite 0))))
       \<lparr>operating_clock_frequency := Finite (13421773 / 67108864)\<rparr> \<and>
   \<bar>13421773 / 67108864 - 1 / (4 * (1 + 1 / 4))\<bar> \<le> \<bar>1 / (4 * (1 + 1 / 4 :: real))\<bar> / 2 ^ 22"
proof -
  have zero: "c_float_eq (Finite 0)
     (operating_clock_frequency (sim_setting (arch (ex_openfpga_ctx (Finite 0)))))"
    by (simp add: ex_openfpga_ctx_def)
  have delay: "least_slack_critical_path_delay (ex_extern 0 []) ()
     (load_net_delay_from_routing (ex_extern 0 []) (ex_vpr ex_rr_graph_unidir)) = Finite 4"
    by (simp add: ex_extern_def)
  have slack: "operating_clock_frequency_slack (sim_setting (arch (ex_openfpga_ctx (Finite 0))))
     = Finite (1 / 4)"
    by (simp add: ex_openfpga_ctx_def)
  have range: "1 / 2 ^ 100 \<le> \<bar>1 + 1 / 4 :: real\<bar>" "\<bar>1 + 1 / 4 :: real\<bar> \<le> 2 ^ 100"
    "1 / 2 ^ 100 \<le> \<bar>4 * (1 + 1 / 4) :: real\<bar>" "\<bar>4 * (1 + 1 / 4) :: real\<bar> \<le> 2 ^ 100"
    by simp_all
  note inst = annotate_simulation_setting_derived_frequency [OF zero,
      where E = "ex_extern 0 []" and g = "ex_vpr ex_rr_graph_unidir" and atom_ctx = "()"
        and calls = "[]" and T = 4 and s = "1 / 4"]
  from inst have shape: "fst (annotate_simulation_setting (ex_extern 0 []) (ex_vpr ex_rr_graph_unidir) ()
      (sim_setting (arch (ex_openfpga_ctx (Finite 0))), [])) =
     (sim_setting (arch (ex_openfpga_ctx (Finite 0))))
       \<lparr>operating_clock_frequency := Finite (13421773 / 67108864)\<rparr>"
    by (simp only: delay slack ex_derived_frequency)
  from inst delay slack range obtain f where
    f: "operating_clock_frequency (fst (annotate_simulation_setting (ex_extern 0 [])
        (ex_vpr ex_rr_graph_unidir) () (sim_setting (arch (ex_openfpga_ctx (Finite 0))), [])))
      = Finite f"
    and close: "\<bar>f - 1 / (4 * (1 + 1 / 4))\<bar> \<le> \<bar>1 / (4 * (1 + 1 / 4 :: real))\<bar> / 2 ^ 22"
    by blast
  from f have "f = 13421773 / 67108864" unfolding shape by simp
  with close have "\<bar>13421773 / 67108864 - 1 / (4 * (1 + 1 / 4))\<bar>
      \<le> \<bar>1 / (4 * (1 + 1 / 4 :: real))\<bar> / 2 ^ 22"
    by simp
  with zero delay slack shape show ?thesis by blast
qed

text \<open>
  Claim C6 as it is stated fails: with a critical-path delay of 4 and a slack of
  a quarter, \<open>T * (1 + s)\<close> is 5 and is computed without error, but the float
  nearest to a fifth is \<open>13421773 / 2^26\<close>, and that is what is stored, not
  \<open>1 / (T * (1 + s))\<close>.
\<close>

theorem annotate_simulation_setting_exact_counterexample:
  "least_slack_critical_path_delay (ex_extern 0 []) ()
     (load_net_delay_from_routing (ex_extern 0 []) (ex_vpr ex_rr_graph_unidir)) = Finite 4 \<and>
   operating_clock_frequency_slack (sim_setting (arch (ex_openfpga_ctx (Finite 0))))
     = Finite (1 / 4) \<and>
   operating_clock_frequency (fst (annotate_simulation_setting (ex_extern 0 [])
      (ex_vpr ex_rr_graph_unidir) () (sim_setting (arch (ex_openfpga_ctx (Finite 0))), [])))
     = Finite (13421773 / 67108864) \<and>
   operating_clock_frequency (fst (annotate_simulation_setting (ex_extern 0 [])
      (ex_vpr ex_rr_graph_unidir) () (sim_setting (arch (ex_openfpga_ctx (Finite 0))), [])))
     \<noteq> Finite (1 / (4 * (1 + 1 / 4)))"
proof -
  have "operating_clock_frequency (fst (annotate_simulation_setting (ex_extern 0 [])
      (ex_vpr ex_rr_graph_unidir) () (sim_setting (arch (ex_openfpga_ctx (Finite 0))), [])))
     = fp_div binary32 (Finite 1)
         (fp_convert binary32
            (fp_mul binary64 (Finite 4) (fp_add binary64 (Finite 1) (Finite (1 / 4)))))"
    by (simp add: annotate_simulation_setting_def run_def Let_def ex_openfpga_ctx_def
        ex_extern_def)
  then have val: "operating_clock_frequency (fst (annotate_simulation_setting (ex_extern 0 [])
      (ex_vpr ex_rr_graph_unidir) () (sim_setting (arch (ex_openfpga_ctx (Finite 0))), [])))
     = Finite (13421773 / 67108864)"
    by (simp only: ex_derived_frequency)
  have "(13421773 / 67108864 :: real) \<noteq> 1 / (4 * (1 + 1 / 4))" by simp
  with val show ?thesis
    by (simp add: ex_extern_def ex_openfpga_ctx_def)
qed

text \<open>
  Claim C7. When the configured operating clock frequency does not compare equal
  to zero, \<open>annotate_simulation_setting\<close> returns the simulation setting it was
  given, every field of it, and calls nothing.
\<close>

theorem annotate_simulation_setting_preconfigured:
  "\<not> c_float_eq (Finite 0) (operating_clock_frequency sim) \<Longrightarrow>
     annotate_simulation_setting E g atom_ctx (sim, calls) = (sim, calls)"
  by (simp add: annotate_simulation_setting_def)

theorem annotate_simulation_setting_preconfigured_witness:
  "\<not> c_float_eq (Finite 0)
       (operating_clock_frequency (sim_setting (arch (ex_openfpga_ctx (Finite 100000000))))) \<and>
   annotate_simulation_setting (ex_extern 0 []) (ex_vpr ex_rr_graph_unidir) ()
       (sim_setting (arch (ex_openfpga_ctx (Finite 100000000))), []) =
     (sim_setting (arch (ex_openfpga_ctx (Finite 100000000))), [])"
proof -
  have pre: "\<not> c_float_eq (Finite 0)
      (operating_clock_frequency (sim_setting (arch (ex_openfpga_ctx (Finite 100000000)))))"
    by (simp add: ex_openfpga_ctx_def)
  from pre annotate_simulation_setting_preconfigured [OF pre] show ?thesis by simp
qed

text \<open>
  Claim C9. The value that asks for the frequency to be derived from timing is
  exactly zero: \<open>annotate_simulation_setting\<close> loads the net delays and runs the
  timing analysis if and only if the configured operating clock frequency is a
  zero, \<^verbatim>\<open>+0.0\<close> or \<^verbatim>\<open>-0.0\<close>, the two values that compare equal to \<^verbatim>\<open>0.\<close>. Every
  other frequency is left as it is, and so is every finite nonzero one, the
  negative ones included.
\<close>

theorem operating_clock_frequency_sentinel:
  "(Call_timing_info_update \<in> set (snd (annotate_simulation_setting E g atom_ctx (sim, [])))
      \<longleftrightarrow> operating_clock_frequency sim = Finite 0 \<or> operating_clock_frequency sim = NegZero) \<and>
   (Call_load_net_delay_from_routing \<in> set (snd (annotate_simulation_setting E g atom_ctx (sim, [])))
      \<longleftrightarrow> operating_clock_frequency sim = Finite 0 \<or> operating_clock_frequency sim = NegZero) \<and>
   (operating_clock_frequency sim \<noteq> Finite 0 \<and> operating_clock_frequency sim \<noteq> NegZero \<longrightarrow>
      fst (annotate_simulation_setting E g atom_ctx (sim, [])) = sim) \<and>
   (\<forall>x. x \<noteq> 0 \<longrightarrow>
      annotate_simulation_setting E g atom_ctx (sim\<lparr>operating_clock_frequency := Finite x\<rparr>, [])
        = (sim\<lparr>operating_clock_frequency := Finite x\<rparr>, []))"
  by (auto simp: annotate_simulation_setting_def run_def Let_def c_float_eq_zero_iff)

theorem operating_clock_frequency_sentinel_witness:
  "operating_clock_frequency (sim_setting (arch (ex_openfpga_ctx (Finite (- 5))))) \<noteq> Finite 0 \<and>
   operating_clock_frequency (sim_setting (arch (ex_openfpga_ctx (Finite (- 5))))) \<noteq> NegZero \<and>
   fst (annotate_simulation_setting (ex_extern 0 []) (ex_vpr ex_rr_graph_unidir) ()
       (sim_setting (arch (ex_openfpga_ctx (Finite (- 5)))), [])) =
     sim_setting (arch (ex_openfpga_ctx (Finite (- 5)))) \<and>
   Call_timing_info_update \<in> set (snd (annotate_simulation_setting (ex_extern 0 [])
       (ex_vpr ex_rr_graph_unidir) () (sim_setting (arch (ex_openfpga_ctx (Finite 0))), []))) \<and>
   Call_timing_info_update \<in> set (snd (annotate_simulation_setting (ex_extern 0 [])
       (ex_vpr ex_rr_graph_unidir) () (sim_setting (arch (ex_openfpga_ctx NegZero)), []))) \<and>
   Call_timing_info_update \<notin> set (snd (annotate_simulation_setting (ex_extern 0 [])
       (ex_vpr ex_rr_graph_unidir) () (sim_setting (arch (ex_openfpga_ctx (Finite (- 5)))), [])))"
proof -
  have neg: "operating_clock_frequency (sim_setting (arch (ex_openfpga_ctx (Finite (- 5)))))
      \<noteq> Finite 0"
    "operating_clock_frequency (sim_setting (arch (ex_openfpga_ctx (Finite (- 5))))) \<noteq> NegZero"
    and zero: "operating_clock_frequency (sim_setting (arch (ex_openfpga_ctx (Finite 0))))
      = Finite 0"
    and negzero: "operating_clock_frequency (sim_setting (arch (ex_openfpga_ctx NegZero)))
      = NegZero"
    by (simp_all add: ex_openfpga_ctx_def)
  from neg zero negzero
    operating_clock_frequency_sentinel [of "ex_extern 0 []" "ex_vpr ex_rr_graph_unidir" "()"
      "sim_setting (arch (ex_openfpga_ctx (Finite (- 5))))"]
    operating_clock_frequency_sentinel [of "ex_extern 0 []" "ex_vpr ex_rr_graph_unidir" "()"
      "sim_setting (arch (ex_openfpga_ctx (Finite 0)))"]
    operating_clock_frequency_sentinel [of "ex_extern 0 []" "ex_vpr ex_rr_graph_unidir" "()"
      "sim_setting (arch (ex_openfpga_ctx NegZero))"]
  show ?thesis by simp
qed

section \<open>Repacking\<close>

text \<open>
  Claim C10. \<open>repack\<close> ends in the fatal assertion exactly when the option
  \<open>design_constraints\<close> is enabled and its value is the empty string; such a call
  does not return a completion code.
\<close>

theorem repack_asserts_design_constraints_file_name:
  "(repack E g ctx cc = Inl VTR_ASSERT_FAILED) =
     (option_enable cc ''design_constraints'' \<and> option_value cc ''design_constraints'' = [])"
  by (simp add: repack_def Let_def split: prod.splits)

theorem repack_asserts_design_constraints_file_name_witness:
  "option_enable (ex_cmd_context_dc []) ''design_constraints'' \<and>
   option_value (ex_cmd_context_dc []) ''design_constraints'' = [] \<and>
   repack (ex_extern 0 []) (ex_vpr ex_rr_graph_unidir) (ex_openfpga_ctx (Finite 0))
     (ex_cmd_context_dc []) = Inl VTR_ASSERT_FAILED \<and>
   repack (ex_extern 0 []) (ex_vpr ex_rr_graph_unidir) (ex_openfpga_ctx (Finite 0))
     (ex_cmd_context_dc ''constraints.xml'') \<noteq> Inl VTR_ASSERT_FAILED"
  using repack_asserts_design_constraints_file_name [of "ex_extern 0 []"
      "ex_vpr ex_rr_graph_unidir" "ex_openfpga_ctx (Finite 0)" "ex_cmd_context_dc []"]
    repack_asserts_design_constraints_file_name [of "ex_extern 0 []"
      "ex_vpr ex_rr_graph_unidir" "ex_openfpga_ctx (Finite 0)" "ex_cmd_context_dc ''constraints.xml''"]
  by (simp add: ex_cmd_context_dc_def)

text \<open>
  Claim C3, evaluated on the code. The completion code of \<open>repack\<close> does not depend
  on the exit codes of the two steps: whenever \<open>repack\<close> returns, it returns
  \<open>CMD_EXEC_SUCCESS\<close>. In the example the physical packing ends with the exit code
  1 and \<open>repack\<close> returns 0.
\<close>

theorem repack_exit_code:
  "map_sum id fst (repack E g ctx cc) =
     (if option_enable cc ''design_constraints'' \<and> option_value cc ''design_constraints'' = []
      then Inl VTR_ASSERT_FAILED else Inr CMD_EXEC_SUCCESS)"
  by (simp add: repack_def Let_def split: prod.splits)

theorem repack_exit_code_witness:
  "fst (pack_physical_pbs (ex_extern 1 []) (device (ex_vpr ex_rr_graph_unidir)) () ()
         (vpr_device_annotation (ex_openfpga_ctx (Finite 0)))
         (vpr_clustering_annotation (ex_openfpga_ctx (Finite 0))) False) = 1 \<and>
   CMD_EXEC_SUCCESS = 0 \<and>
   map_sum id fst (repack (ex_extern 1 []) (ex_vpr ex_rr_graph_unidir)
      (ex_openfpga_ctx (Finite 0)) ex_cmd_context) = Inr CMD_EXEC_SUCCESS"
  using repack_exit_code [of "ex_extern 1 []" "ex_vpr ex_rr_graph_unidir"
      "ex_openfpga_ctx (Finite 0)" ex_cmd_context]
  by (simp add: ex_cmd_context_def ex_extern_def CMD_EXEC_SUCCESS_def)

text \<open>
  Claim C1, evaluated on the code. The table that the design-constraint file
  parses to does not reach \<open>pack_physical_pbs\<close>: \<open>repack\<close> gives the same result
  whatever the file holds, and the same result with the option enabled (and a
  non-empty file name) as with the option disabled. In the example two rules
  claim the pin \<^verbatim>\<open>clb.I[0]\<close>, and \<open>repack\<close> returns \<open>CMD_EXEC_SUCCESS\<close> with the
  packing it produces without constraints.
\<close>

theorem repack_ignores_design_constraints:
  "repack (E\<lparr>read_xml_repack_design_constraints := parse\<rparr>) g ctx cc = repack E g ctx cc \<and>
   repack E g ctx
     (cc\<lparr>option_enable := (option_enable cc)(''design_constraints'' := True),
         option_value := (option_value cc)(''design_constraints'' := c # fname)\<rparr>)
   = repack E g ctx
     (cc\<lparr>option_enable := (option_enable cc)(''design_constraints'' := False)\<rparr>)"
  by (simp add: repack_def Let_def split: prod.splits)

theorem repack_ignores_design_constraints_witness:
  "repack (ex_extern 0 [(''net_a'', ''clb.I[0]''), (''net_b'', ''clb.I[0]'')])
      (ex_vpr ex_rr_graph_unidir) (ex_openfpga_ctx (Finite 0)) (ex_cmd_context_dc ''constraints.xml'')
   = repack (ex_extern 0 []) (ex_vpr ex_rr_graph_unidir) (ex_openfpga_ctx (Finite 0))
       (ex_cmd_context_dc ''constraints.xml'') \<and>
   repack (ex_extern 0 [(''net_a'', ''clb.I[0]''), (''net_b'', ''clb.I[0]'')])
      (ex_vpr ex_rr_graph_unidir) (ex_openfpga_ctx (Finite 0)) (ex_cmd_context_dc ''constraints.xml'')
   = Inr (CMD_EXEC_SUCCESS,
       (ex_openfpga_ctx (Finite 0))
         \<lparr>vpr_clustering_annotation := [''physical pb'', ''physical truth table'']\<rparr>)"
proof -
  have E: "ex_extern 0 [(''net_a'', ''clb.I[0]''), (''net_b'', ''clb.I[0]'')] =
      (ex_extern 0 [])\<lparr>read_xml_repack_design_constraints :=
         (\<lambda>fname. [(''net_a'', ''clb.I[0]''), (''net_b'', ''clb.I[0]'')])\<rparr>"
    by (simp add: ex_extern_def)
  have val: "repack (ex_extern 0 []) (ex_vpr ex_rr_graph_unidir) (ex_openfpga_ctx (Finite 0))
       (ex_cmd_context_dc ''constraints.xml'')
     = Inr (CMD_EXEC_SUCCESS,
       (ex_openfpga_ctx (Finite 0))
         \<lparr>vpr_clustering_annotation := [''physical pb'', ''physical truth table'']\<rparr>)"
    by (simp add: repack_def ex_extern_def ex_cmd_context_dc_def ex_openfpga_ctx_def)
  from repack_ignores_design_constraints [where E = "ex_extern 0 []"
      and parse = "\<lambda>fname. [(''net_a'', ''clb.I[0]''), (''net_b'', ''clb.I[0]'')]"
      and g = "ex_vpr ex_rr_graph_unidir" and ctx = "ex_openfpga_ctx (Finite 0)"
      and cc = "ex_cmd_context_dc ''constraints.xml''"] val
  show ?thesis unfolding E by simp
qed

section \<open>The multiplexer library\<close>

lemma add_mux_keys:
  "map fst (add_mux sig lib) = (if sig \<in> set (map fst lib) then map fst lib else map fst lib @ [sig])"
  by (auto simp: add_mux_def map_of_eq_None_iff split: option.splits)
     (metis domI domIff map_of_eq_None_iff)

lemma add_mux_ids:
  "map snd lib = [0..<length lib] \<Longrightarrow> map snd (add_mux sig lib) = [0..<length (add_mux sig lib)]"
  by (auto simp: add_mux_def split: option.splits)

lemma add_mux_keys_set: "fst ` set (add_mux sig lib) = insert sig (fst ` set lib)"
proof -
  have "set (map fst (add_mux sig lib)) = insert sig (set (map fst lib))"
    unfolding add_mux_keys by auto
  then show ?thesis by simp
qed

lemma foldl_add_mux_keys_set:
  "fst ` set (foldl (\<lambda>lib sig. add_mux sig lib) lib sigs) = fst ` set lib \<union> set sigs"
  by (induction sigs arbitrary: lib) (simp_all add: add_mux_keys_set)

lemma foldl_add_mux_distinct:
  "distinct (map fst lib) \<Longrightarrow> distinct (map fst (foldl (\<lambda>lib sig. add_mux sig lib) lib sigs))"
  by (induction sigs arbitrary: lib) (auto simp: add_mux_keys)

lemma foldl_add_mux_ids:
  "map snd lib = [0..<length lib] \<Longrightarrow>
   map snd (foldl (\<lambda>lib sig. add_mux sig lib) lib sigs)
     = [0..<length (foldl (\<lambda>lib sig. add_mux sig lib) lib sigs)]"
  by (induction sigs arbitrary: lib) (auto simp: add_mux_ids)

lemma foldl_add_mux_known:
  "set sigs \<subseteq> set (map fst lib) \<Longrightarrow> foldl (\<lambda>lib sig. add_mux sig lib) lib sigs = lib"
proof (induction sigs)
  case Nil
  then show ?case by simp
next
  case (Cons sig sigs)
  from Cons.prems have "sig \<in> fst ` set lib" by simp
  then have "map_of lib sig \<noteq> None" by (simp add: map_of_eq_None_iff)
  then have "add_mux sig lib = lib" by (auto simp: add_mux_def split: option.splits)
  with Cons show ?case by simp
qed

text \<open>
  Claim C8. The library built for a device has exactly one entry per distinct
  structural signature among the multiplexers of the device: its size is the
  number of distinct signatures, its signatures are pairwise different and are
  those of the device, and its identifiers count up from 0 in the order of
  allocation. The number of instances plays no role: a device in which every
  multiplexer occurs twice gets the same library.
\<close>

theorem build_device_mux_library_dedup:
  "length (build_device_mux_library E dev ctx) = card (set (find_device_muxes E dev ctx)) \<and>
   distinct (map fst (build_device_mux_library E dev ctx)) \<and>
   set (map fst (build_device_mux_library E dev ctx)) = set (find_device_muxes E dev ctx) \<and>
   map snd (build_device_mux_library E dev ctx) = [0..<length (build_device_mux_library E dev ctx)] \<and>
   build_device_mux_library
     (E\<lparr>find_device_muxes := (\<lambda>d c. find_device_muxes E d c @ find_device_muxes E d c)\<rparr>) dev ctx
     = build_device_mux_library E dev ctx"
proof -
  let ?sigs = "find_device_muxes E dev ctx"
  let ?lib = "foldl (\<lambda>lib sig. add_mux sig lib) [] ?sigs"
  have keys: "set (map fst ?lib) = set ?sigs"
    using foldl_add_mux_keys_set [of "[]" ?sigs] by simp
  have dist: "distinct (map fst ?lib)"
    by (rule foldl_add_mux_distinct) simp
  have ids: "map snd ?lib = [0..<length ?lib]"
    by (rule foldl_add_mux_ids) simp
  have "length ?lib = length (map fst ?lib)" by simp
  also have "\<dots> = card (set (map fst ?lib))"
    using dist by (rule distinct_card [symmetric])
  finally have len: "length ?lib = card (set ?sigs)" by (simp only: keys)
  have twice: "foldl (\<lambda>lib sig. add_mux sig lib) [] (?sigs @ ?sigs) = ?lib"
    using foldl_add_mux_known [of ?sigs ?lib] keys by simp
  from len dist keys ids twice show ?thesis
    by (simp add: build_device_mux_library_def)
qed

theorem build_device_mux_library_dedup_witness:
  "find_device_muxes (ex_extern 0 []) (device (ex_vpr ex_rr_graph_unidir))
     (ex_openfpga_ctx (Finite 0)) = [2, 2] \<and>
   length (build_device_mux_library (ex_extern 0 []) (device (ex_vpr ex_rr_graph_unidir))
     (ex_openfpga_ctx (Finite 0))) = 1"
  using build_device_mux_library_dedup [of "ex_extern 0 []" "device (ex_vpr ex_rr_graph_unidir)"
      "ex_openfpga_ctx (Finite 0)"]
  by (simp add: ex_extern_def)

end
